theory Spec2Isabelle
  imports Main "HOL-Library.AList"
begin

section \<open>Python values and the native DOM\<close>

text \<open>
  The module \<^verbatim>\<open>pyweb/ui/elements.py\<close> wraps native DOM nodes in one Python class per HTML
  tag. Its only effects are calls on the browser's DOM, so the embedding threads a
  \<open>document\<close> through every operation: a store of native nodes, addressed by index, and the
  sequence of DOM calls issued so far.
\<close>

datatype pyval =
    PNone
  | PBool bool
  | PInt int
  | PStr string
  | PElement nat  \<comment> \<open>a \<^verbatim>\<open>pydom.Element\<close> instance, given by the address of the node it wraps\<close>
  | PList "pyval list"

datatype dom_call =
    CreateElement string
  | SetStyle nat string pyval
  | SetProperty nat string pyval
  | AppendChild nat pyval
  | SetHtml nat pyval

record js_node =
  node_tag :: string
  node_style :: "(string \<times> pyval) list"
  node_props :: "(string \<times> pyval) list"
  node_children :: "pyval list"
  node_html :: "pyval option"

record document =
  nodes :: "js_node list"
  calls :: "dom_call list"

definition update_node :: "nat \<Rightarrow> (js_node \<Rightarrow> js_node) \<Rightarrow> document \<Rightarrow> document" where
  "update_node n f d =
     (if n < length (nodes d) then d\<lparr>nodes := (nodes d)[n := f (nodes d ! n)]\<rparr> else d)"

definition record_call :: "dom_call \<Rightarrow> document \<Rightarrow> document" where
  "record_call c d = d\<lparr>calls := calls d @ [c]\<rparr>"

definition createElement :: "string \<Rightarrow> document \<Rightarrow> nat \<times> document" where
  \<comment> \<open>Modelled from the spec: \<^verbatim>\<open>document.createElement\<close> of the interpreter bridge
      (package \<^verbatim>\<open>pyscript\<close>, outside this module), consumed as "create a native element
      node". The fresh node has no style, no property, no child and no html.\<close>
  "createElement t d =
     (length (nodes d),
      record_call (CreateElement t)
        (d\<lparr>nodes := nodes d @
           [\<lparr>node_tag = t, node_style = [], node_props = [], node_children = [],
             node_html = None\<rparr>]\<rparr>))"

section \<open>Classes\<close>

text \<open>
  A class object is its base and its \<^verbatim>\<open>__dict__\<close>, an association list in insertion order.
  Only the entries written in the class body or installed by \<^verbatim>\<open>setattr\<close> are kept; the
  entries the interpreter adds (\<^verbatim>\<open>__module__\<close>, \<^verbatim>\<open>__qualname__\<close>, \<^verbatim>\<open>__doc__\<close>) are
  strings or \<^verbatim>\<open>None\<close> and never a \<^verbatim>\<open>JSProperty\<close>.
\<close>

datatype attr =
    Str string
  | JSProperty string  \<comment> \<open>a \<^verbatim>\<open>JSProperty\<close> descriptor and the property name it is bound to\<close>
  | Function

datatype base = Element | ElementBase | TextElementBase

record pyclass =
  cls_base :: base
  cls_dict :: "(string \<times> attr) list"

record element =
  el_class :: pyclass
  el_js :: nat

definition tag :: "pyclass \<Rightarrow> string" where
  \<comment> \<open>\<^verbatim>\<open>self.tag\<close>: the class's own \<^verbatim>\<open>tag\<close>, else the one inherited from
      \<^verbatim>\<open>ElementBase\<close> (line 45). Every class statement of the module binds \<^verbatim>\<open>tag\<close> to a
      string, and no call rebinds it.\<close>
  "tag c = (case map_of (cls_dict c) ''tag'' of Some (Str t) \<Rightarrow> t | _ \<Rightarrow> ''div'')"

definition GLOBAL_ATTRIBUTES :: "string list" where
  "GLOBAL_ATTRIBUTES =
     [''accesskey'', ''autocapitalize'', ''autofocus'', ''draggable'', ''enterkeyhint'',
      ''hidden'', ''id'', ''lang'', ''nonce'', ''part'', ''popover'', ''slot'', ''spellcheck'',
      ''tabindex'', ''title'', ''translate'', ''virtualkeyboardpolicy'', ''className'']"

definition CUSTOM_ATTRIBUTES :: "(string \<times> string list) list" where
  "CUSTOM_ATTRIBUTES =
     [(''a'', [''download'', ''href'', ''referrerpolicy'', ''rel'', ''target'', ''type'']),
      (''td'', [''colspan'', ''headers'', ''rowspan'']),
      (''template'', [''shadowrootmode'']),
      (''textarea'', [''autocapitalize'', ''autocomplete'', ''autofocus'', ''cols'', ''dirname'',
         ''disabled'', ''form'', ''maxlength'', ''minlength'', ''name'', ''placeholder'',
         ''readonly'', ''required'', ''rows'', ''spellcheck'', ''wrap'']),
      (''tr'', [''abbr'', ''colspan'', ''headers'', ''rowspan'', ''scope'']),
      (''time'', [''datetime'']),
      (''video'', [''autoplay'', ''controls'', ''crossorigin'', ''disablepictureinpicture'',
         ''disableremoteplayback'', ''height'', ''loop'', ''muted'', ''playsinline'',
         ''poster'', ''preload'', ''src'', ''width''])]"

definition js_property :: "string \<Rightarrow> attr" where
  \<comment> \<open>Modelled from the spec: \<^verbatim>\<open>pyweb.js_property\<close> (package \<^verbatim>\<open>pyweb\<close>, outside this
      module) builds the descriptor that exposes the node's property of the given name.\<close>
  "js_property name = JSProperty name"

definition setattr_class :: "pyclass \<Rightarrow> string \<Rightarrow> attr \<Rightarrow> pyclass" where
  \<comment> \<open>\<^verbatim>\<open>setattr(cls, name, value)\<close>: an existing key keeps its place in \<^verbatim>\<open>__dict__\<close>, a
      new one goes to the end.\<close>
  "setattr_class c name v = c\<lparr>cls_dict := AList.update name v (cls_dict c)\<rparr>"

definition add_js_properties :: "pyclass \<Rightarrow> string list \<Rightarrow> pyclass" where
  \<comment> \<open>\<^verbatim>\<open>_add_js_properties(cls, *attrs)\<close>, lines 91 to 111. Its last statement rewrites the
      \<^verbatim>\<open>__doc__\<close> of \<^verbatim>\<open>cls.__init__\<close>, a string that nothing in the module reads.\<close>
  "add_js_properties c attrs =
     fold (\<lambda>attr c. setattr_class c attr (js_property attr)) attrs
       (fold (\<lambda>attr c. setattr_class c attr (js_property attr)) GLOBAL_ATTRIBUTES c)"

section \<open>Instances and their operations on the wrapped node\<close>

text \<open>
  The base class \<^verbatim>\<open>pydom.Element\<close> and the descriptor \<^verbatim>\<open>JSProperty\<close> belong to the
  package \<^verbatim>\<open>pyweb\<close>, which lies outside this module. Their operations are modelled from
  the spec, which consumes the native node only through "get/set a named property on that
  node": each operation changes the wrapped node and records the DOM call it makes.
\<close>

definition style_setitem :: "element \<Rightarrow> string \<Rightarrow> pyval \<Rightarrow> document \<Rightarrow> document" where
  \<comment> \<open>Modelled from the spec: \<^verbatim>\<open>self.style[key] = value\<close> of \<^verbatim>\<open>pydom.Element\<close> sets the
      style property \<open>key\<close> of the wrapped node.\<close>
  "style_setitem self key v d =
     record_call (SetStyle (el_js self) key v)
       (update_node (el_js self)
          (\<lambda>n. n\<lparr>node_style := AList.update key v (node_style n)\<rparr>) d)"

definition append_el :: "element \<Rightarrow> pyval \<Rightarrow> document \<Rightarrow> document" where
  \<comment> \<open>Modelled from the spec: \<^verbatim>\<open>self.append(item)\<close> of \<^verbatim>\<open>pydom.Element\<close> adds the item
      after the children of the wrapped node.\<close>
  "append_el self item d =
     record_call (AppendChild (el_js self) item)
       (update_node (el_js self) (\<lambda>n. n\<lparr>node_children := node_children n @ [item]\<rparr>) d)"

definition html_set :: "element \<Rightarrow> pyval \<Rightarrow> document \<Rightarrow> document" where
  \<comment> \<open>Modelled from the spec: \<^verbatim>\<open>self.html = value\<close> of \<^verbatim>\<open>pydom.Element\<close> sets the html
      of the wrapped node.\<close>
  "html_set self v d =
     record_call (SetHtml (el_js self) v)
       (update_node (el_js self) (\<lambda>n. n\<lparr>node_html := Some v\<rparr>) d)"

definition JSProperty_get :: "string \<Rightarrow> element \<Rightarrow> document \<Rightarrow> pyval option" where
  \<comment> \<open>Modelled from the spec: \<^verbatim>\<open>JSProperty.__get__\<close> reads the named property of the
      wrapped node; \<open>None\<close> is JavaScript's \<^verbatim>\<open>undefined\<close>.\<close>
  "JSProperty_get name self d =
     (if el_js self < length (nodes d) then map_of (node_props (nodes d ! el_js self)) name
      else None)"

definition JSProperty_set :: "string \<Rightarrow> element \<Rightarrow> pyval \<Rightarrow> document \<Rightarrow> document" where
  \<comment> \<open>Modelled from the spec: \<^verbatim>\<open>JSProperty.__set__\<close> writes the named property of the
      wrapped node.\<close>
  "JSProperty_set name self v d =
     record_call (SetProperty (el_js self) name v)
       (update_node (el_js self)
          (\<lambda>n. n\<lparr>node_props := AList.update name v (node_props n)\<rparr>) d)"

definition getattr :: "element \<Rightarrow> string \<Rightarrow> document \<Rightarrow> pyval option" where
  \<comment> \<open>\<^verbatim>\<open>getattr(self, name)\<close> where the class holds a \<^verbatim>\<open>JSProperty\<close> under \<open>name\<close>: a data
      descriptor of the class takes precedence. Other attributes live on the Python object
      and are not part of this model.\<close>
  "getattr self name d =
     (case map_of (cls_dict (el_class self)) name of
        Some (JSProperty p) \<Rightarrow> JSProperty_get p self d
      | _ \<Rightarrow> None)"

definition setattr :: "element \<Rightarrow> string \<Rightarrow> pyval \<Rightarrow> document \<Rightarrow> document" where
  \<comment> \<open>\<^verbatim>\<open>setattr(self, name, value)\<close>: a \<^verbatim>\<open>JSProperty\<close> of the class receives the value;
      any other name is stored on the Python object and makes no DOM call.\<close>
  "setattr self name v d =
     (case map_of (cls_dict (el_class self)) name of
        Some (JSProperty p) \<Rightarrow> JSProperty_set p self v d
      | _ \<Rightarrow> d)"

section \<open>Constructors\<close>

type_synonym style_arg = "(string \<times> pyval) list option"
type_synonym kwargs = "string \<rightharpoonup> pyval"

fun init_property :: "element \<Rightarrow> kwargs \<Rightarrow> string \<times> attr \<Rightarrow> document \<Rightarrow> document" where
  \<comment> \<open>The body of the loop of \<^verbatim>\<open>_init_properties\<close>, lines 68 and 69.\<close>
  "init_property self kw (attr_name, JSProperty p) d =
     (case kw attr_name of Some v \<Rightarrow> setattr self attr_name v d | None \<Rightarrow> d)"
| "init_property self kw (attr_name, _) d = d"

definition init_properties :: "element \<Rightarrow> kwargs \<Rightarrow> document \<Rightarrow> document" where
  \<comment> \<open>\<^verbatim>\<open>ElementBase._init_properties\<close>, lines 58 to 69: the loop runs over the items of the
      \<^verbatim>\<open>__dict__\<close> of the instance's own class.\<close>
  "init_properties self kw d = fold (init_property self kw) (cls_dict (el_class self)) d"

definition ElementBase_init ::
  "pyclass \<Rightarrow> style_arg \<Rightarrow> kwargs \<Rightarrow> document \<Rightarrow> element \<times> document" where
  \<comment> \<open>\<^verbatim>\<open>ElementBase.__init__(self, style=None, **kwargs)\<close>, lines 47 to 56, for an instance
      of class \<open>c\<close>. \<^verbatim>\<open>if style:\<close> is false for \<^verbatim>\<open>None\<close> and for the empty dictionary.\<close>
  "ElementBase_init c style kw d =
     (let (n, d1) = createElement (tag c) d;
          self = \<lparr>el_class = c, el_js = n\<rparr>;
          d2 = (case style of
                  None \<Rightarrow> d1
                | Some items \<Rightarrow>
                    if items = [] then d1
                    else fold (\<lambda>(key, v). style_setitem self key v) items d1)
      in (self, init_properties self kw d2))"

definition TextElementBase_init ::
  "pyclass \<Rightarrow> pyval \<Rightarrow> style_arg \<Rightarrow> kwargs \<Rightarrow> document \<Rightarrow> element \<times> document" where
  \<comment> \<open>\<^verbatim>\<open>TextElementBase.__init__(self, content=None, style=None, **kwargs)\<close>, lines 73
      to 88.\<close>
  "TextElementBase_init c content style kw d =
     (let (self, d1) = ElementBase_init c style kw d
      in (self,
          case content of
            PElement e \<Rightarrow> append_el self content d1
          | PList items \<Rightarrow> fold (append_el self) items d1
          | PNone \<Rightarrow> d1
          | _ \<Rightarrow> html_set self content d1))"

definition grid_init ::
  "pyclass \<Rightarrow> pyval \<Rightarrow> pyval \<Rightarrow> pyval \<Rightarrow> style_arg \<Rightarrow> kwargs \<Rightarrow> document
     \<Rightarrow> element \<times> document" where
  \<comment> \<open>\<^verbatim>\<open>grid.__init__(self, layout, content=None, gap=None, **kwargs)\<close>, lines 914 to 921.
      A \<^verbatim>\<open>style\<close> keyword travels inside \<^verbatim>\<open>**kwargs\<close> and is bound to the \<^verbatim>\<open>style\<close>
      parameter of \<^verbatim>\<open>TextElementBase.__init__\<close>; it is passed on its own here.\<close>
  "grid_init c layout content gap style kw d =
     (let (self, d1) = TextElementBase_init c content style kw d;
          d2 = style_setitem self ''display'' (PStr ''grid'') d1;
          d3 = style_setitem self ''grid-template-columns'' layout d2
      in (self, if gap \<noteq> PNone then style_setitem self ''gap'' gap d3 else d3))"

section \<open>The module body\<close>

text \<open>
  The statements of the module after its imports and tables, in source order. A class
  statement binds its name to a new class object; \<^verbatim>\<open>map_\<close> and \<^verbatim>\<open>nav\<close> are defined twice,
  and the later statement rebinds the name.
\<close>

datatype stmt =
    ClassDef string base "(string \<times> attr) list"
  | Add_js_properties string "string list"

datatype py_error = NameError string

type_synonym namespace = "(string \<times> pyclass) list"

fun exec_stmt :: "stmt \<Rightarrow> namespace \<Rightarrow> py_error + namespace" where
  "exec_stmt (ClassDef name b body) ns =
     Inr (AList.update name \<lparr>cls_base = b, cls_dict = body\<rparr> ns)"
| "exec_stmt (Add_js_properties name attrs) ns =
     (case map_of ns name of
        None \<Rightarrow> Inl (NameError name)
      | Some c \<Rightarrow> Inr (AList.update name (add_js_properties c attrs) ns))"

fun exec_module :: "stmt list \<Rightarrow> namespace \<Rightarrow> py_error + namespace" where
  "exec_module [] ns = Inr ns"
| "exec_module (s # ss) ns =
     (case exec_stmt s ns of Inl e \<Rightarrow> Inl e | Inr ns' \<Rightarrow> exec_module ss ns')"

definition elements_module :: "stmt list" where
  "elements_module =
    [
     ClassDef ''ElementBase'' Element [(''tag'', Str ''div''), (''__init__'', Function),
        (''_init_properties'', Function)],
     ClassDef ''TextElementBase'' ElementBase [(''__init__'', Function)],
     ClassDef ''a'' TextElementBase [(''tag'', Str ''a'')],
     ClassDef ''abbr'' ElementBase [(''tag'', Str ''abbr'')],
     Add_js_properties ''abbr'' [],
     ClassDef ''address'' ElementBase [(''tag'', Str ''address'')],
     Add_js_properties ''address'' [],
     ClassDef ''area'' ElementBase [(''tag'', Str ''area'')],
     Add_js_properties ''area'' [''alt'', ''coords'', ''download'', ''href'', ''ping'',
        ''referrerpolicy'', ''rel'', ''shape'', ''target''],
     ClassDef ''article'' ElementBase [(''tag'', Str ''article'')],
     Add_js_properties ''article'' [],
     ClassDef ''aside'' ElementBase [(''tag'', Str ''aside'')],
     Add_js_properties ''aside'' [],
     ClassDef ''audio'' ElementBase [(''tag'', Str ''audio'')],
     Add_js_properties ''audio'' [''autoplay'', ''controls'', ''controlslist'',
        ''crossorigin'', ''disableremoteplayback'', ''loop'', ''muted'', ''preload'',
        ''src''],
     ClassDef ''b'' ElementBase [(''tag'', Str ''b'')],
     Add_js_properties ''b'' [],
     ClassDef ''blockquote'' ElementBase [(''tag'', Str ''blockquote'')],
     Add_js_properties ''blockquote'' [''cite''],
     ClassDef ''br'' ElementBase [(''tag'', Str ''br'')],
     Add_js_properties ''br'' [],
     ClassDef ''button'' TextElementBase [(''tag'', Str ''button'')],
     Add_js_properties ''button'' [''autofocus'', ''disabled'', ''form'', ''formaction'',
        ''formenctype'', ''formmethod'', ''formnovalidate'', ''formtarget'', ''name'',
        ''type'', ''value''],
     ClassDef ''canvas'' ElementBase [(''tag'', Str ''canvas'')],
     Add_js_properties ''canvas'' [''height'', ''width''],
     ClassDef ''caption'' ElementBase [(''tag'', Str ''caption'')],
     Add_js_properties ''caption'' [],
     ClassDef ''cite'' TextElementBase [(''tag'', Str ''cite'')],
     Add_js_properties ''cite'' [],
     ClassDef ''code'' TextElementBase [(''tag'', Str ''code'')],
     Add_js_properties ''code'' [],
     ClassDef ''data'' TextElementBase [(''tag'', Str ''data'')],
     Add_js_properties ''data'' [''value''],
     ClassDef ''datalist'' TextElementBase [(''tag'', Str ''datalist'')],
     Add_js_properties ''datalist'' [],
     ClassDef ''dd'' TextElementBase [(''tag'', Str ''dd'')],
     Add_js_properties ''dd'' [],
     ClassDef ''del_'' TextElementBase [(''tag'', Str ''del'')],
     Add_js_properties ''del_'' [''cite'', ''datetime''],
     ClassDef ''details'' TextElementBase [(''tag'', Str ''details'')],
     Add_js_properties ''details'' [''open''],
     ClassDef ''dialog'' TextElementBase [(''tag'', Str ''dialog'')],
     Add_js_properties ''dialog'' [''open''],
     ClassDef ''div'' TextElementBase [(''tag'', Str ''div'')],
     Add_js_properties ''div'' [],
     ClassDef ''dl'' TextElementBase [(''tag'', Str ''dl'')],
     Add_js_properties ''dl'' [''value''],
     ClassDef ''dt'' TextElementBase [(''tag'', Str ''dt'')],
     Add_js_properties ''dt'' [],
     ClassDef ''em'' TextElementBase [(''tag'', Str ''em'')],
     Add_js_properties ''em'' [],
     ClassDef ''embed'' TextElementBase [(''tag'', Str ''embed'')],
     Add_js_properties ''embed'' [''height'', ''src'', ''type'', ''width''],
     ClassDef ''fieldset'' TextElementBase [(''tag'', Str ''fieldset'')],
     Add_js_properties ''fieldset'' [''disabled'', ''form'', ''name''],
     ClassDef ''figcation'' TextElementBase [(''tag'', Str ''figcation'')],
     Add_js_properties ''figcation'' [],
     ClassDef ''figure'' TextElementBase [(''tag'', Str ''figure'')],
     Add_js_properties ''figure'' [],
     ClassDef ''footer'' TextElementBase [(''tag'', Str ''footer'')],
     Add_js_properties ''footer'' [],
     ClassDef ''form'' TextElementBase [(''tag'', Str ''form'')],
     Add_js_properties ''form'' [''accept-charset'', ''action'', ''autocapitalize'',
        ''autocomplete'', ''enctype'', ''name'', ''method'', ''nonvalidate'', ''rel'',
        ''target''],
     ClassDef ''h1'' TextElementBase [(''tag'', Str ''h1'')],
     Add_js_properties ''h1'' [],
     ClassDef ''h2'' TextElementBase [(''tag'', Str ''h2'')],
     Add_js_properties ''h2'' [],
     ClassDef ''h3'' TextElementBase [(''tag'', Str ''h3'')],
     Add_js_properties ''h3'' [],
     ClassDef ''h4'' TextElementBase [(''tag'', Str ''h4'')],
     Add_js_properties ''h4'' [],
     ClassDef ''h5'' TextElementBase [(''tag'', Str ''h5'')],
     Add_js_properties ''h5'' [],
     ClassDef ''h6'' TextElementBase [(''tag'', Str ''h6'')],
     Add_js_properties ''h6'' [],
     ClassDef ''header'' TextElementBase [(''tag'', Str ''header'')],
     Add_js_properties ''header'' [],
     ClassDef ''hgroup'' TextElementBase [(''tag'', Str ''hgroup'')],
     Add_js_properties ''hgroup'' [],
     ClassDef ''hr'' TextElementBase [(''tag'', Str ''hr'')],
     Add_js_properties ''hr'' [],
     ClassDef ''i'' TextElementBase [(''tag'', Str ''i'')],
     Add_js_properties ''i'' [],
     ClassDef ''iframe'' TextElementBase [(''tag'', Str ''iframe'')],
     Add_js_properties ''iframe'' [''allow'', ''allowfullscreen'', ''height'',
        ''loading'', ''name'', ''referrerpolicy'', ''sandbox'', ''src'', ''srcdoc'',
        ''width''],
     ClassDef ''img'' ElementBase [(''tag'', Str ''img'')],
     Add_js_properties ''img'' [''alt'', ''crossorigin'', ''decoding'',
        ''fetchpriority'', ''height'', ''ismap'', ''loading'', ''referrerpolicy'',
        ''sizes'', ''src'', ''width''],
     ClassDef ''input_'' ElementBase [(''tag'', Str ''input'')],
     Add_js_properties ''input_'' [''accept'', ''alt'', ''autofocus'', ''capture'',
        ''checked'', ''dirname'', ''disabled'', ''form'', ''formaction'',
        ''formenctype'', ''formmethod'', ''formnovalidate'', ''formtarget'', ''height'',
        ''list'', ''max'', ''maxlength'', ''min'', ''minlength'', ''multiple'', ''name'',
        ''pattern'', ''placeholder'', ''popovertarget'', ''popovertargetaction'',
        ''readonly'', ''required'', ''size'', ''src'', ''step'', ''type'', ''value'',
        ''width''],
     ClassDef ''ins'' TextElementBase [(''tag'', Str ''ins'')],
     Add_js_properties ''ins'' [''cite'', ''datetime''],
     ClassDef ''kbd'' TextElementBase [(''tag'', Str ''kbd'')],
     Add_js_properties ''kbd'' [],
     ClassDef ''label'' TextElementBase [(''tag'', Str ''label'')],
     Add_js_properties ''label'' [''for''],
     ClassDef ''legend'' TextElementBase [(''tag'', Str ''legend'')],
     Add_js_properties ''legend'' [],
     ClassDef ''li'' TextElementBase [(''tag'', Str ''li'')],
     Add_js_properties ''li'' [''value''],
     ClassDef ''link'' TextElementBase [(''tag'', Str ''link'')],
     Add_js_properties ''link'' [''as'', ''crossorigin'', ''disabled'',
        ''fetchpriority'', ''href'', ''imagesizes'', ''imagesrcset'', ''integrity'',
        ''media'', ''rel'', ''referrerpolicy'', ''sizes'', ''title'', ''type''],
     ClassDef ''main'' TextElementBase [(''tag'', Str ''main'')],
     Add_js_properties ''main'' [],
     ClassDef ''map_'' TextElementBase [(''tag'', Str ''map'')],
     Add_js_properties ''map_'' [''name''],
     ClassDef ''mark'' TextElementBase [(''tag'', Str ''mark'')],
     Add_js_properties ''mark'' [],
     ClassDef ''menu'' TextElementBase [(''tag'', Str ''menu'')],
     Add_js_properties ''menu'' [],
     ClassDef ''map_'' TextElementBase [(''tag'', Str ''map'')],
     Add_js_properties ''map_'' [''name''],
     ClassDef ''meter'' TextElementBase [(''tag'', Str ''meter'')],
     Add_js_properties ''meter'' [''form'', ''high'', ''low'', ''max'', ''min'',
        ''optimum'', ''value''],
     ClassDef ''nav'' TextElementBase [(''tag'', Str ''nav'')],
     Add_js_properties ''nav'' [],
     ClassDef ''object_'' TextElementBase [(''tag'', Str ''object'')],
     Add_js_properties ''object_'' [''data'', ''form'', ''height'', ''name'', ''type'',
        ''usemap'', ''width''],
     ClassDef ''ol'' TextElementBase [(''tag'', Str ''ol'')],
     Add_js_properties ''ol'' [''reversed'', ''start'', ''type''],
     ClassDef ''optgroup'' TextElementBase [(''tag'', Str ''optgroup'')],
     Add_js_properties ''optgroup'' [''disabled'', ''label''],
     ClassDef ''option'' TextElementBase [(''tag'', Str ''option'')],
     Add_js_properties ''option'' [''disabled'', ''label'', ''selected'', ''value''],
     ClassDef ''output'' TextElementBase [(''tag'', Str ''output'')],
     Add_js_properties ''output'' [''for'', ''form'', ''name''],
     ClassDef ''p'' TextElementBase [(''tag'', Str ''p'')],
     Add_js_properties ''p'' [],
     ClassDef ''picture'' TextElementBase [(''tag'', Str ''picture'')],
     Add_js_properties ''picture'' [],
     ClassDef ''pre'' TextElementBase [(''tag'', Str ''pre'')],
     Add_js_properties ''pre'' [],
     ClassDef ''progress'' TextElementBase [(''tag'', Str ''progress'')],
     Add_js_properties ''progress'' [''max'', ''value''],
     ClassDef ''q'' TextElementBase [(''tag'', Str ''q'')],
     Add_js_properties ''q'' [''cite''],
     ClassDef ''nav'' TextElementBase [(''tag'', Str ''nav'')],
     Add_js_properties ''nav'' [],
     ClassDef ''s'' TextElementBase [(''tag'', Str ''s'')],
     Add_js_properties ''s'' [],
     ClassDef ''script'' TextElementBase [(''tag'', Str ''script''), (''async_'',
        js_property ''async'')],
     Add_js_properties ''script'' [''blocking'', ''crossorigin'', ''defer'',
        ''fetchpriority'', ''integrity'', ''nomodule'', ''nonce'', ''referrerpolicy'',
        ''src'', ''type''],
     ClassDef ''section'' TextElementBase [(''tag'', Str ''section'')],
     Add_js_properties ''section'' [],
     ClassDef ''select'' TextElementBase [(''tag'', Str ''select'')],
     Add_js_properties ''select'' [],
     ClassDef ''small'' TextElementBase [(''tag'', Str ''small'')],
     Add_js_properties ''small'' [],
     ClassDef ''source'' TextElementBase [(''tag'', Str ''source'')],
     Add_js_properties ''source'' [''type'', ''src'', ''srcset'', ''sizes'', ''media''],
     ClassDef ''span'' TextElementBase [(''tag'', Str ''span'')],
     ClassDef ''strong'' TextElementBase [(''tag'', Str ''strong'')],
     Add_js_properties ''strong'' [],
     ClassDef ''style'' TextElementBase [(''tag'', Str ''style'')],
     Add_js_properties ''style'' [''blocking'', ''media'', ''nonce'', ''title''],
     ClassDef ''sub'' TextElementBase [(''tag'', Str ''sub'')],
     ClassDef ''summary'' TextElementBase [(''tag'', Str ''summary'')],
     ClassDef ''sup'' TextElementBase [(''tag'', Str ''sup'')],
     ClassDef ''table'' TextElementBase [(''tag'', Str ''table'')],
     ClassDef ''tbody'' TextElementBase [(''tag'', Str ''tbody'')],
     ClassDef ''td'' TextElementBase [(''tag'', Str ''td'')],
     ClassDef ''template'' TextElementBase [(''tag'', Str ''template'')],
     ClassDef ''textarea'' TextElementBase [(''tag'', Str ''textarea'')],
     ClassDef ''tfoot'' TextElementBase [(''tag'', Str ''tfoot'')],
     ClassDef ''th'' TextElementBase [(''tag'', Str ''th'')],
     ClassDef ''thead'' TextElementBase [(''tag'', Str ''thead'')],
     ClassDef ''time'' TextElementBase [(''tag'', Str ''time'')],
     ClassDef ''title'' TextElementBase [(''tag'', Str ''title'')],
     ClassDef ''tr'' TextElementBase [(''tag'', Str ''tr'')],
     ClassDef ''track'' TextElementBase [(''tag'', Str ''track'')],
     ClassDef ''u'' TextElementBase [(''tag'', Str ''u'')],
     ClassDef ''ul'' TextElementBase [(''tag'', Str ''ul'')],
     ClassDef ''var'' TextElementBase [(''tag'', Str ''var'')],
     ClassDef ''video'' TextElementBase [(''tag'', Str ''video'')],
     ClassDef ''grid'' TextElementBase [(''tag'', Str ''div''), (''__init__'', Function)]]"

definition module_class :: "string \<Rightarrow> pyclass option" where
  \<comment> \<open>The class bound to a name once the module body has run.\<close>
  "module_class name =
     (case exec_module elements_module [] of Inl e \<Rightarrow> None | Inr ns \<Rightarrow> map_of ns name)"

section \<open>Notions used to state the properties\<close>

definition empty_document :: document where
  "empty_document = \<lparr>nodes = [], calls = []\<rparr>"

definition wrapped :: "element \<Rightarrow> document \<Rightarrow> js_node" where
  \<comment> \<open>The native node behind an instance.\<close>
  "wrapped self d = nodes d ! el_js self"

definition new_calls :: "document \<Rightarrow> document \<Rightarrow> dom_call list" where
  \<comment> \<open>The DOM calls made between an earlier and a later document.\<close>
  "new_calls d d' = drop (length (calls d)) (calls d')"

fun is_CreateElement :: "dom_call \<Rightarrow> bool" where
  "is_CreateElement (CreateElement t) = True"
| "is_CreateElement _ = False"

definition style_calls :: "nat \<Rightarrow> style_arg \<Rightarrow> dom_call list" where
  \<comment> \<open>One style assignment per item of the style dictionary, in its order.\<close>
  "style_calls n style =
     (case style of None \<Rightarrow> [] | Some items \<Rightarrow> map (\<lambda>(key, v). SetStyle n key v) items)"

fun property_call :: "nat \<Rightarrow> kwargs \<Rightarrow> string \<times> attr \<Rightarrow> dom_call list" where
  "property_call n kw (attr_name, JSProperty p) =
     (case kw attr_name of Some v \<Rightarrow> [SetProperty n p v] | None \<Rightarrow> [])"
| "property_call n kw (attr_name, _) = []"

definition property_calls :: "nat \<Rightarrow> pyclass \<Rightarrow> kwargs \<Rightarrow> dom_call list" where
  \<comment> \<open>One property assignment per \<^verbatim>\<open>JSProperty\<close> of the class that the keyword arguments
      supply, in the order of the class's \<^verbatim>\<open>__dict__\<close>.\<close>
  "property_calls n c kw = concat (map (property_call n kw) (cls_dict c))"

definition content_calls :: "nat \<Rightarrow> pyval \<Rightarrow> dom_call list" where
  \<comment> \<open>The calls that insert the content.\<close>
  "content_calls n content =
     (case content of
        PElement e \<Rightarrow> [AppendChild n content]
      | PList items \<Rightarrow> map (AppendChild n) items
      | PNone \<Rightarrow> []
      | _ \<Rightarrow> [SetHtml n content])"

definition claimed_calls ::
  "pyclass \<Rightarrow> nat \<Rightarrow> pyval \<Rightarrow> style_arg \<Rightarrow> kwargs \<Rightarrow> dom_call list" where
  \<comment> \<open>The order of the steps as the description of the base construction routine lists
      them: style, then content, then properties.\<close>
  "claimed_calls c n content style kw =
     [CreateElement (tag c)] @ style_calls n style @ content_calls n content @
     property_calls n c kw"

definition performed_calls ::
  "pyclass \<Rightarrow> nat \<Rightarrow> pyval \<Rightarrow> style_arg \<Rightarrow> kwargs \<Rightarrow> dom_call list" where
  \<comment> \<open>The order in which \<^verbatim>\<open>TextElementBase.__init__\<close> is written: its first statement runs
      \<^verbatim>\<open>ElementBase.__init__\<close> to the end, the content comes after.\<close>
  "performed_calls c n content style kw =
     [CreateElement (tag c)] @ style_calls n style @ property_calls n c kw @
     content_calls n content"

definition supplied_style :: "style_arg \<Rightarrow> string \<rightharpoonup> pyval" where
  \<comment> \<open>The value a style dictionary gives to a key; in an association list the last entry
      for a key is the one that remains.\<close>
  "supplied_style style = (case style of None \<Rightarrow> Map.empty | Some items \<Rightarrow> map_of (rev items))"

definition only_touches :: "nat \<Rightarrow> document \<Rightarrow> document \<Rightarrow> bool" where
  \<comment> \<open>From \<open>d\<close> to \<open>d'\<close> no node is created or dropped, every node other than \<open>n\<close> is as
      it was, node \<open>n\<close> keeps its tag, and the calls made in between create nothing.\<close>
  "only_touches n d d' \<longleftrightarrow>
     length (nodes d') = length (nodes d) \<and>
     (\<forall>i. i \<noteq> n \<longrightarrow> nodes d' ! i = nodes d ! i) \<and>
     node_tag (nodes d' ! n) = node_tag (nodes d ! n) \<and>
     take (length (calls d)) (calls d') = calls d \<and>
     filter is_CreateElement (new_calls d d') = []"

definition wraps_fresh_node :: "pyclass \<Rightarrow> document \<Rightarrow> element \<times> document \<Rightarrow> bool" where
  \<comment> \<open>The outcome of a constructor of class \<open>c\<close> run in document \<open>d\<close>: exactly one
      \<^verbatim>\<open>createElement\<close> call, with the class's tag; the instance wraps the node that call
      made; the nodes that existed before are as they were.\<close>
  "wraps_fresh_node c d r \<longleftrightarrow>
     (case r of (self, d') \<Rightarrow>
        el_class self = c \<and>
        el_js self = length (nodes d) \<and>
        length (nodes d') = Suc (length (nodes d)) \<and>
        node_tag (wrapped self d') = tag c \<and>
        take (length (nodes d)) (nodes d') = nodes d \<and>
        take (length (calls d)) (calls d') = calls d \<and>
        filter is_CreateElement (new_calls d d') = [CreateElement (tag c)])"

fun class_step :: "string \<Rightarrow> pyclass option \<Rightarrow> stmt \<Rightarrow> pyclass option" where
  \<comment> \<open>What one statement does to the class bound to one name.\<close>
  "class_step n cur (ClassDef m b body) =
     (if m = n then Some \<lparr>cls_base = b, cls_dict = body\<rparr> else cur)"
| "class_step n (Some c) (Add_js_properties m attrs) =
     (if m = n then Some (add_js_properties c attrs) else Some c)"
| "class_step n None (Add_js_properties m attrs) = None"

fun defined_before_use :: "string list \<Rightarrow> stmt list \<Rightarrow> bool" where
  \<comment> \<open>Every call names a class that an earlier statement has defined.\<close>
  "defined_before_use names [] = True"
| "defined_before_use names (ClassDef m b body # ss) = defined_before_use (m # names) ss"
| "defined_before_use names (Add_js_properties m attrs # ss) =
     (m \<in> set names \<and> defined_before_use names ss)"

fun class_tags :: "stmt list \<Rightarrow> (string \<times> string) list" where
  \<comment> \<open>The class statements of a module body, each with the tag its class gets.\<close>
  "class_tags [] = []"
| "class_tags (ClassDef m b body # ss) =
     (m, tag \<lparr>cls_base = b, cls_dict = body\<rparr>) # class_tags ss"
| "class_tags (Add_js_properties m attrs # ss) = class_tags ss"

fun tag_untouched :: "stmt list \<Rightarrow> bool" where
  \<comment> \<open>No call installs a property under the name \<^verbatim>\<open>tag\<close>.\<close>
  "tag_untouched [] = True"
| "tag_untouched (ClassDef m b body # ss) = tag_untouched ss"
| "tag_untouched (Add_js_properties m attrs # ss) =
     (''tag'' \<notin> set attrs \<and> tag_untouched ss)"

fun bodies_distinct :: "stmt list \<Rightarrow> bool" where
  \<comment> \<open>No class body binds a name twice.\<close>
  "bodies_distinct [] = True"
| "bodies_distinct (ClassDef m b body # ss) = (distinct (map fst body) \<and> bodies_distinct ss)"
| "bodies_distinct (Add_js_properties m attrs # ss) = bodies_distinct ss"

subsection \<open>Classes as the module leaves them\<close>

definition a_class :: pyclass where
  \<comment> \<open>Lines 118 and 119; the call of line 123 is commented out.\<close>
  "a_class = \<lparr>cls_base = TextElementBase, cls_dict = [(''tag'', Str ''a'')]\<rparr>"

definition blockquote_body :: pyclass where
  \<comment> \<open>Lines 204 and 205, before the call of line 209.\<close>
  "blockquote_body = \<lparr>cls_base = ElementBase, cls_dict = [(''tag'', Str ''blockquote'')]\<rparr>"

definition button_class :: pyclass where
  \<comment> \<open>Lines 220 to 238.\<close>
  "button_class =
     add_js_properties \<lparr>cls_base = TextElementBase, cls_dict = [(''tag'', Str ''button'')]\<rparr>
       [''autofocus'', ''disabled'', ''form'', ''formaction'', ''formenctype'', ''formmethod'',
        ''formnovalidate'', ''formtarget'', ''name'', ''type'', ''value'']"

definition div_class :: pyclass where
  \<comment> \<open>Lines 321 to 326.\<close>
  "div_class =
     add_js_properties \<lparr>cls_base = TextElementBase, cls_dict = [(''tag'', Str ''div'')]\<rparr> []"

definition script_body :: pyclass where
  \<comment> \<open>Lines 762 to 766, the class statement alone.\<close>
  "script_body =
     \<lparr>cls_base = TextElementBase,
      cls_dict = [(''tag'', Str ''script''), (''async_'', js_property ''async'')]\<rparr>"

definition script_attrs :: "string list" where
  \<comment> \<open>The extra attributes of the call of lines 770 to 782.\<close>
  "script_attrs =
     [''blocking'', ''crossorigin'', ''defer'', ''fetchpriority'', ''integrity'', ''nomodule'',
      ''nonce'', ''referrerpolicy'', ''src'', ''type'']"

definition span_class :: pyclass where
  \<comment> \<open>Lines 814 and 815; no call follows.\<close>
  "span_class = \<lparr>cls_base = TextElementBase, cls_dict = [(''tag'', Str ''span'')]\<rparr>"

definition table_class :: pyclass where
  \<comment> \<open>Lines 846 and 847; no call follows.\<close>
  "table_class = \<lparr>cls_base = TextElementBase, cls_dict = [(''tag'', Str ''table'')]\<rparr>"

definition grid_class :: pyclass where
  \<comment> \<open>Lines 911 to 921; no call follows.\<close>
  "grid_class =
     \<lparr>cls_base = TextElementBase, cls_dict = [(''tag'', Str ''div''), (''__init__'', Function)]\<rparr>"

section \<open>Properties\<close>

subsection \<open>Unfolding the model on concrete inputs\<close>

lemmas eval_defs =
  ElementBase_init_def TextElementBase_init_def grid_init_def createElement_def
  init_properties_def setattr_def getattr_def JSProperty_set_def JSProperty_get_def
  style_setitem_def append_el_def html_set_def update_node_def record_call_def
  empty_document_def tag_def wrapped_def new_calls_def
  add_js_properties_def setattr_class_def js_property_def GLOBAL_ATTRIBUTES_def

subsection \<open>Primitive operations\<close>

lemma calls_record_call [simp]: "calls (record_call c d) = calls d @ [c]"
  by (simp add: record_call_def)

lemma nodes_record_call [simp]: "nodes (record_call c d) = nodes d"
  by (simp add: record_call_def)

lemma calls_update_node [simp]: "calls (update_node n f d) = calls d"
  by (simp add: update_node_def)

lemma length_nodes_update_node [simp]: "length (nodes (update_node n f d)) = length (nodes d)"
  by (simp add: update_node_def)

lemma nth_nodes_update_node:
  "nodes (update_node n f d) ! i =
     (if i = n \<and> n < length (nodes d) then f (nodes d ! n) else nodes d ! i)"
  by (simp add: update_node_def)

lemma only_touches_refl [simp]: "only_touches n d d"
  by (simp add: only_touches_def new_calls_def)

lemma extends_calls_iff:
  "take (length xs) ys = xs \<and> filter P (drop (length xs) ys) = [] \<longleftrightarrow>
     (\<exists>zs. ys = xs @ zs \<and> filter P zs = [])"
proof
  assume h: "take (length xs) ys = xs \<and> filter P (drop (length xs) ys) = []"
  have "ys = take (length xs) ys @ drop (length xs) ys" by simp
  with h have "ys = xs @ drop (length xs) ys" by simp
  with h show "\<exists>zs. ys = xs @ zs \<and> filter P zs = []" by blast
next
  assume "\<exists>zs. ys = xs @ zs \<and> filter P zs = []"
  then show "take (length xs) ys = xs \<and> filter P (drop (length xs) ys) = []" by auto
qed

lemma only_touches_alt:
  "only_touches n d d' \<longleftrightarrow>
     length (nodes d') = length (nodes d) \<and>
     (\<forall>i. i \<noteq> n \<longrightarrow> nodes d' ! i = nodes d ! i) \<and>
     node_tag (nodes d' ! n) = node_tag (nodes d ! n) \<and>
     (\<exists>cs. calls d' = calls d @ cs \<and> filter is_CreateElement cs = [])"
  unfolding only_touches_def new_calls_def
  using extends_calls_iff [of "calls d" "calls d'" is_CreateElement] by simp

lemma only_touches_trans:
  assumes "only_touches n d d'" and "only_touches n d' d''"
  shows "only_touches n d d''"
proof -
  from assms(1) obtain cs where cs: "calls d' = calls d @ cs" "filter is_CreateElement cs = []"
    unfolding only_touches_alt by blast
  from assms(2) obtain cs' where cs': "calls d'' = calls d' @ cs'" "filter is_CreateElement cs' = []"
    unfolding only_touches_alt by blast
  have "calls d'' = calls d @ (cs @ cs') \<and> filter is_CreateElement (cs @ cs') = []"
    using cs cs' by simp
  then have "\<exists>zs. calls d'' = calls d @ zs \<and> filter is_CreateElement zs = []" by blast
  moreover have "length (nodes d'') = length (nodes d)"
    using assms by (simp add: only_touches_alt)
  moreover have "\<forall>i. i \<noteq> n \<longrightarrow> nodes d'' ! i = nodes d ! i"
    using assms by (simp add: only_touches_alt)
  moreover have "node_tag (nodes d'' ! n) = node_tag (nodes d ! n)"
    using assms by (simp add: only_touches_alt)
  ultimately show ?thesis unfolding only_touches_alt by blast
qed

lemma only_touches_update_node:
  "(\<And>x. node_tag (f x) = node_tag x) \<Longrightarrow> \<not> is_CreateElement c \<Longrightarrow>
     only_touches n d (record_call c (update_node n f d))"
  by (simp add: only_touches_def new_calls_def nth_nodes_update_node)

lemma only_touches_style_setitem: "only_touches (el_js self) d (style_setitem self k v d)"
  unfolding style_setitem_def by (rule only_touches_update_node) simp_all

lemma only_touches_append_el: "only_touches (el_js self) d (append_el self x d)"
  unfolding append_el_def by (rule only_touches_update_node) simp_all

lemma only_touches_html_set: "only_touches (el_js self) d (html_set self x d)"
  unfolding html_set_def by (rule only_touches_update_node) simp_all

lemma only_touches_JSProperty_set: "only_touches (el_js self) d (JSProperty_set p self x d)"
  unfolding JSProperty_set_def by (rule only_touches_update_node) simp_all

lemma only_touches_setattr: "only_touches (el_js self) d (setattr self a x d)"
  by (simp add: setattr_def only_touches_JSProperty_set split: option.split attr.split)

lemma only_touches_fold:
  "(\<And>x d. only_touches n d (f x d)) \<Longrightarrow> only_touches n d (fold f xs d)"
proof (induction xs arbitrary: d)
  case Nil
  show ?case by simp
next
  case (Cons x xs)
  have "only_touches n d (f x d)" by (rule Cons.prems)
  moreover have "only_touches n (f x d) (fold f xs (f x d))"
    by (rule Cons.IH) (rule Cons.prems)
  ultimately show ?case by (simp add: only_touches_trans)
qed

lemma only_touches_init_property:
  "only_touches (el_js self) d (init_property self kw x d)"
  by (cases "(self, kw, x, d)" rule: init_property.cases)
     (simp_all add: only_touches_setattr split: option.split)

lemma only_touches_init_properties:
  "only_touches (el_js self) d (init_properties self kw d)"
  unfolding init_properties_def by (rule only_touches_fold) (rule only_touches_init_property)

subsection \<open>The calls each operation records\<close>

lemma calls_style_setitem [simp]:
  "calls (style_setitem self k v d) = calls d @ [SetStyle (el_js self) k v]"
  by (simp add: style_setitem_def)

lemma calls_append_el [simp]:
  "calls (append_el self x d) = calls d @ [AppendChild (el_js self) x]"
  by (simp add: append_el_def)

lemma calls_html_set [simp]:
  "calls (html_set self x d) = calls d @ [SetHtml (el_js self) x]"
  by (simp add: html_set_def)

lemma calls_JSProperty_set [simp]:
  "calls (JSProperty_set p self x d) = calls d @ [SetProperty (el_js self) p x]"
  by (simp add: JSProperty_set_def)

lemma calls_createElement [simp]:
  "calls (snd (createElement t d)) = calls d @ [CreateElement t]"
  by (simp add: createElement_def)

lemma calls_fold_style:
  "calls (fold (\<lambda>(key, v). style_setitem self key v) items d) =
     calls d @ map (\<lambda>(key, v). SetStyle (el_js self) key v) items"
  by (induction items arbitrary: d) (auto)

lemma calls_fold_append:
  "calls (fold (append_el self) items d) = calls d @ map (AppendChild (el_js self)) items"
  by (induction items arbitrary: d) auto

lemma calls_init_property:
  assumes "map_of (cls_dict (el_class self)) (fst x) = Some (snd x)"
  shows "calls (init_property self kw x d) = calls d @ property_call (el_js self) kw x"
  using assms
  by (cases "(self, kw, x, d)" rule: init_property.cases)
     (auto simp: setattr_def split: option.split)

lemma calls_fold_init_property:
  assumes "\<forall>x \<in> set xs. map_of (cls_dict (el_class self)) (fst x) = Some (snd x)"
  shows "calls (fold (init_property self kw) xs d) =
           calls d @ concat (map (property_call (el_js self) kw) xs)"
  using assms
proof (induction xs arbitrary: d)
  case Nil
  show ?case by simp
next
  case (Cons x xs)
  from Cons.prems have hx: "map_of (cls_dict (el_class self)) (fst x) = Some (snd x)"
    and hxs: "\<forall>y \<in> set xs. map_of (cls_dict (el_class self)) (fst y) = Some (snd y)"
    by simp_all
  show ?case
    by (simp add: Cons.IH [OF hxs] calls_init_property [OF hx])
qed

lemma calls_init_properties:
  assumes "distinct (map fst (cls_dict (el_class self)))"
  shows "calls (init_properties self kw d) =
           calls d @ property_calls (el_js self) (el_class self) kw"
  unfolding init_properties_def property_calls_def
  by (rule calls_fold_init_property) (use assms in auto)

subsection \<open>What the harvesting routine installs\<close>

lemma cls_dict_setattr_class [simp]:
  "cls_dict (setattr_class c a v) = AList.update a v (cls_dict c)"
  by (simp add: setattr_class_def)

lemma cls_base_setattr_class [simp]: "cls_base (setattr_class c a v) = cls_base c"
  by (simp add: setattr_class_def)

lemma map_of_fold_js_property:
  "map_of (cls_dict (fold (\<lambda>attr c. setattr_class c attr (js_property attr)) xs c)) a =
     (if a \<in> set xs then Some (JSProperty a) else map_of (cls_dict c) a)"
proof (induction xs arbitrary: c)
  case Nil
  show ?case by simp
next
  case (Cons x xs)
  show ?case
    using Cons.IH [of "setattr_class c x (js_property x)"]
    by (simp add: update_conv' js_property_def)
qed

lemma distinct_fold_js_property:
  "distinct (map fst (cls_dict c)) \<Longrightarrow>
     distinct (map fst (cls_dict (fold (\<lambda>attr c. setattr_class c attr (js_property attr)) xs c)))"
  by (induction xs arbitrary: c) (simp_all add: distinct_update)

lemma cls_base_fold_js_property [simp]:
  "cls_base (fold (\<lambda>attr c. setattr_class c attr (js_property attr)) xs c) = cls_base c"
  by (induction xs arbitrary: c) simp_all

lemma map_of_add_js_properties:
  "map_of (cls_dict (add_js_properties c attrs)) a =
     (if a \<in> set GLOBAL_ATTRIBUTES \<union> set attrs then Some (JSProperty a)
      else map_of (cls_dict c) a)"
  by (simp add: add_js_properties_def map_of_fold_js_property)

lemma distinct_add_js_properties:
  "distinct (map fst (cls_dict c)) \<Longrightarrow> distinct (map fst (cls_dict (add_js_properties c attrs)))"
  by (simp add: add_js_properties_def distinct_fold_js_property)

lemma cls_base_add_js_properties [simp]: "cls_base (add_js_properties c attrs) = cls_base c"
  by (simp add: add_js_properties_def)

subsection \<open>Running the module body\<close>

lemma exec_stmt_lookup:
  assumes "exec_stmt s ns = Inr ns'"
  shows "map_of ns' n = class_step n (map_of ns n) s"
proof (cases s)
  case (ClassDef m b body)
  with assms show ?thesis by (auto simp: update_conv')
next
  case (Add_js_properties m attrs)
  with assms obtain c where c: "map_of ns m = Some c"
    and ns': "ns' = AList.update m (add_js_properties c attrs) ns"
    by (auto split: option.splits)
  show ?thesis
  proof (cases "map_of ns n")
    case None
    with c have "m \<noteq> n" by auto
    with None show ?thesis by (simp add: Add_js_properties ns' update_conv')
  next
    case (Some c')
    with c show ?thesis by (auto simp: Add_js_properties ns' update_conv')
  qed
qed

lemma exec_module_lookup:
  "exec_module ss ns = Inr ns' \<Longrightarrow> map_of ns' n = foldl (class_step n) (map_of ns n) ss"
proof (induction ss arbitrary: ns)
  case Nil
  then show ?case by simp
next
  case (Cons s ss)
  from Cons.prems obtain ns1 where s: "exec_stmt s ns = Inr ns1"
    and ss: "exec_module ss ns1 = Inr ns'"
    by (auto split: sum.splits)
  from Cons.IH [OF ss] exec_stmt_lookup [OF s] show ?case by simp
qed

lemma exec_module_succeeds:
  "set names \<subseteq> fst ` set ns \<Longrightarrow> defined_before_use names ss \<Longrightarrow>
     \<exists>ns'. exec_module ss ns = Inr ns'"
proof (induction names ss arbitrary: ns rule: defined_before_use.induct)
  case (1 names)
  show ?case by simp
next
  case (2 names m b body ss)
  let ?ns = "AList.update m \<lparr>cls_base = b, cls_dict = body\<rparr> ns"
  have "set (m # names) \<subseteq> fst ` set ?ns"
    using "2.prems"(1) by (auto simp: dom_update)
  from "2.IH" [OF this] "2.prems"(2) show ?case by simp
next
  case (3 names m attrs ss)
  from "3.prems" have "m \<in> fst ` set ns" by auto
  then obtain c where c: "map_of ns m = Some c"
    by (metis map_of_eq_None_iff not_Some_eq)
  let ?ns = "AList.update m (add_js_properties c attrs) ns"
  have "set names \<subseteq> fst ` set ?ns"
    using "3.prems"(1) by (auto simp: dom_update)
  from "3.IH" [OF this] "3.prems"(2) show ?case by (simp add: c)
qed

lemma elements_module_defined_before_use: "defined_before_use [] elements_module"
  by (simp add: elements_module_def)

lemma elements_module_runs: "\<exists>ns. exec_module elements_module [] = Inr ns"
  by (rule exec_module_succeeds [OF _ elements_module_defined_before_use]) simp

lemma module_class_eq: "module_class n = foldl (class_step n) None elements_module"
proof -
  obtain ns where ns: "exec_module elements_module [] = Inr ns"
    using elements_module_runs by blast
  from exec_module_lookup [OF ns, of n] show ?thesis
    by (simp add: module_class_def ns)
qed

lemma distinct_class_step:
  assumes "bodies_distinct [s]"
    and "\<forall>c. cur = Some c \<longrightarrow> distinct (map fst (cls_dict c))"
    and "class_step n cur s = Some c"
  shows "distinct (map fst (cls_dict c))"
proof (cases s)
  case (ClassDef m b body)
  with assms show ?thesis by (auto split: if_splits)
next
  case (Add_js_properties m attrs)
  with assms show ?thesis
    by (cases cur) (auto simp: distinct_add_js_properties split: if_splits)
qed

lemma bodies_distinct_Cons:
  "bodies_distinct (s # ss) \<longleftrightarrow> bodies_distinct [s] \<and> bodies_distinct ss"
  by (cases s) simp_all

lemma distinct_foldl_class_step:
  "bodies_distinct ss \<Longrightarrow> \<forall>c. cur = Some c \<longrightarrow> distinct (map fst (cls_dict c)) \<Longrightarrow>
     foldl (class_step n) cur ss = Some c \<Longrightarrow> distinct (map fst (cls_dict c))"
proof (induction ss arbitrary: cur)
  case Nil
  then show ?case by simp
next
  case (Cons s ss)
  from Cons.prems(1) have s: "bodies_distinct [s]" and ss: "bodies_distinct ss"
    using bodies_distinct_Cons by blast+
  have "\<forall>c. class_step n cur s = Some c \<longrightarrow> distinct (map fst (cls_dict c))"
    using distinct_class_step [OF s Cons.prems(2)] by blast
  from Cons.IH [OF ss this] Cons.prems(3) show ?case by simp
qed

lemma elements_module_bodies_distinct: "bodies_distinct elements_module"
  by (simp add: elements_module_def)

lemma module_class_distinct:
  "module_class n = Some c \<Longrightarrow> distinct (map fst (cls_dict c))"
  using distinct_foldl_class_step [OF elements_module_bodies_distinct, of None n c]
  by (simp add: module_class_eq)

lemma module_class_a: "module_class ''a'' = Some a_class"
  by (simp add: module_class_eq elements_module_def a_class_def)

lemma module_class_span: "module_class ''span'' = Some span_class"
  by (simp add: module_class_eq elements_module_def span_class_def)

lemma module_class_button: "module_class ''button'' = Some button_class"
  by (simp add: module_class_eq elements_module_def button_class_def)

lemma module_class_div: "module_class ''div'' = Some div_class"
  by (simp add: module_class_eq elements_module_def div_class_def)

lemma module_class_grid: "module_class ''grid'' = Some grid_class"
  by (simp add: module_class_eq elements_module_def grid_class_def)

lemma module_class_table: "module_class ''table'' = Some table_class"
  by (simp add: module_class_eq elements_module_def table_class_def)

lemma module_class_script:
  "module_class ''script'' = Some (add_js_properties script_body script_attrs)"
  by (simp add: module_class_eq elements_module_def script_body_def script_attrs_def)

subsection \<open>Every constructor wraps one fresh node\<close>

lemma createElement_eq:
  "createElement t d = (length (nodes d), snd (createElement t d))"
  by (simp add: createElement_def)

lemma only_touches_style_loop:
  "only_touches (el_js self) d
     (case style of
        None \<Rightarrow> d
      | Some items \<Rightarrow>
          if items = [] then d else fold (\<lambda>(key, v). style_setitem self key v) items d)"
proof (cases style)
  case None
  then show ?thesis by simp
next
  case (Some items)
  have "only_touches (el_js self) d (fold (\<lambda>(key, v). style_setitem self key v) items d)"
    by (rule only_touches_fold) (simp add: only_touches_style_setitem split: prod.split)
  with Some show ?thesis by simp
qed

lemma ElementBase_init_outcome:
  "\<exists>d'. ElementBase_init c style kw d = (\<lparr>el_class = c, el_js = length (nodes d)\<rparr>, d') \<and>
        only_touches (length (nodes d)) (snd (createElement (tag c) d)) d'"
proof -
  let ?self = "\<lparr>el_class = c, el_js = length (nodes d)\<rparr>"
  let ?d1 = "snd (createElement (tag c) d)"
  let ?d2 = "case style of
               None \<Rightarrow> ?d1
             | Some items \<Rightarrow>
                 if items = [] then ?d1
                 else fold (\<lambda>(key, v). style_setitem ?self key v) items ?d1"
  have eq: "ElementBase_init c style kw d = (?self, init_properties ?self kw ?d2)"
    by (simp add: ElementBase_init_def createElement_def Let_def split: option.split)
  have "only_touches (el_js ?self) ?d1 ?d2" by (rule only_touches_style_loop)
  moreover have "only_touches (el_js ?self) ?d2 (init_properties ?self kw ?d2)"
    by (rule only_touches_init_properties)
  ultimately have "only_touches (el_js ?self) ?d1 (init_properties ?self kw ?d2)"
    by (rule only_touches_trans)
  with eq show ?thesis by simp
qed

lemma only_touches_content:
  "only_touches (el_js self) d
     (case content of
        PElement e \<Rightarrow> append_el self content d
      | PList items \<Rightarrow> fold (append_el self) items d
      | PNone \<Rightarrow> d
      | _ \<Rightarrow> html_set self content d)"
  by (cases content)
     (simp_all add: only_touches_append_el only_touches_html_set only_touches_fold)

lemma TextElementBase_init_outcome:
  "\<exists>d'. TextElementBase_init c content style kw d =
          (\<lparr>el_class = c, el_js = length (nodes d)\<rparr>, d') \<and>
        only_touches (length (nodes d)) (snd (createElement (tag c) d)) d'"
proof -
  let ?self = "\<lparr>el_class = c, el_js = length (nodes d)\<rparr>"
  obtain d1 where d1: "ElementBase_init c style kw d = (?self, d1)"
    and t1: "only_touches (length (nodes d)) (snd (createElement (tag c) d)) d1"
    using ElementBase_init_outcome by blast
  let ?d2 = "case content of
               PElement e \<Rightarrow> append_el ?self content d1
             | PList items \<Rightarrow> fold (append_el ?self) items d1
             | PNone \<Rightarrow> d1
             | _ \<Rightarrow> html_set ?self content d1"
  have eq: "TextElementBase_init c content style kw d = (?self, ?d2)"
    by (simp add: TextElementBase_init_def d1)
  have "only_touches (el_js ?self) d1 ?d2" by (rule only_touches_content)
  with t1 have "only_touches (length (nodes d)) (snd (createElement (tag c) d)) ?d2"
    using only_touches_trans by fastforce
  with eq show ?thesis by blast
qed

lemma grid_init_outcome:
  "\<exists>d'. grid_init c layout content gap style kw d =
          (\<lparr>el_class = c, el_js = length (nodes d)\<rparr>, d') \<and>
        only_touches (length (nodes d)) (snd (createElement (tag c) d)) d'"
proof -
  let ?self = "\<lparr>el_class = c, el_js = length (nodes d)\<rparr>"
  let ?n = "length (nodes d)"
  obtain d1 where d1: "TextElementBase_init c content style kw d = (?self, d1)"
    and t1: "only_touches ?n (snd (createElement (tag c) d)) d1"
    using TextElementBase_init_outcome by blast
  let ?d2 = "style_setitem ?self ''display'' (PStr ''grid'') d1"
  let ?d3 = "style_setitem ?self ''grid-template-columns'' layout ?d2"
  let ?d4 = "if gap \<noteq> PNone then style_setitem ?self ''gap'' gap ?d3 else ?d3"
  have eq: "grid_init c layout content gap style kw d = (?self, ?d4)"
    by (simp add: grid_init_def d1 Let_def)
  have s: "\<And>k v x. only_touches ?n x (style_setitem ?self k v x)"
    using only_touches_style_setitem [of ?self] by simp
  have "only_touches ?n d1 ?d2" by (rule s)
  moreover have "only_touches ?n ?d2 ?d3" by (rule s)
  moreover have "only_touches ?n ?d3 ?d4" by (simp add: s)
  ultimately have "only_touches ?n (snd (createElement (tag c) d)) ?d4"
    using t1 only_touches_trans by blast
  with eq show ?thesis by blast
qed

lemma wraps_fresh_nodeI:
  assumes "only_touches (length (nodes d)) (snd (createElement (tag c) d)) d'"
  shows "wraps_fresh_node c d (\<lparr>el_class = c, el_js = length (nodes d)\<rparr>, d')"
proof -
  let ?n = "length (nodes d)"
  let ?d1 = "snd (createElement (tag c) d)"
  from assms obtain cs where len: "length (nodes d') = length (nodes ?d1)"
    and oth: "\<forall>i. i \<noteq> ?n \<longrightarrow> nodes d' ! i = nodes ?d1 ! i"
    and tg: "node_tag (nodes d' ! ?n) = node_tag (nodes ?d1 ! ?n)"
    and cs: "calls d' = calls ?d1 @ cs" "filter is_CreateElement cs = []"
    unfolding only_touches_alt by blast
  have n1: "nodes ?d1 = nodes d @ [\<lparr>node_tag = tag c, node_style = [], node_props = [],
              node_children = [], node_html = None\<rparr>]"
    by (simp add: createElement_def)
  have "length (nodes d') = Suc ?n" using len n1 by simp
  moreover have "node_tag (nodes d' ! ?n) = tag c" using tg n1 by simp
  moreover have "take ?n (nodes d') = nodes d"
  proof (rule nth_equalityI)
    show "length (take ?n (nodes d')) = length (nodes d)" using len n1 by simp
  next
    fix i assume "i < length (take ?n (nodes d'))"
    then have i: "i < ?n" by simp
    then have "nodes d' ! i = nodes ?d1 ! i" using oth by simp
    with i show "take ?n (nodes d') ! i = nodes d ! i" by (simp add: n1 nth_append)
  qed
  moreover have "calls d' = calls d @ CreateElement (tag c) # cs" using cs by simp
  ultimately show ?thesis
    using cs(2) by (simp add: wraps_fresh_node_def wrapped_def new_calls_def)
qed

text \<open>
  C2. Each of the three constructors, run for an instance of any class \<open>c\<close> in any
  document, calls \<^verbatim>\<open>createElement\<close> exactly once, with the tag of \<open>c\<close>; the instance
  wraps the node that call made, and the nodes and calls that were there before are as they
  were. The wrapped node stays for the life of the instance: setting a style, setting an
  attribute, appending and setting the html create no node, drop none and keep every tag.
\<close>

theorem constructor_creates_one_node:
  "wraps_fresh_node c d (ElementBase_init c style kw d) \<and>
   wraps_fresh_node c d (TextElementBase_init c content style kw d) \<and>
   wraps_fresh_node c d (grid_init c layout content gap style kw d) \<and>
   only_touches (el_js x) d (style_setitem x key v d) \<and>
   only_touches (el_js x) d (setattr x name v d) \<and>
   only_touches (el_js x) d (append_el x item d) \<and>
   only_touches (el_js x) d (html_set x v d)"
  using ElementBase_init_outcome [of c style kw d]
    TextElementBase_init_outcome [of c content style kw d]
    grid_init_outcome [of c layout content gap style kw d]
  by (auto intro: wraps_fresh_nodeI only_touches_style_setitem only_touches_setattr
        only_touches_append_el only_touches_html_set)

text \<open>
  C2, at a concrete input: a \<^verbatim>\<open>grid\<close> built in the empty document wraps node 0, a
  \<^verbatim>\<open>div\<close>, made by the only \<^verbatim>\<open>createElement\<close> call.
\<close>

theorem constructor_creates_one_node_witness:
  "fst (grid_init grid_class (PStr ''1fr 1fr'') (PStr ''hi'') PNone None (map_of [])
          empty_document) = \<lparr>el_class = grid_class, el_js = 0\<rparr> \<and>
   filter is_CreateElement
     (calls (snd (grid_init grid_class (PStr ''1fr 1fr'') (PStr ''hi'') PNone None (map_of [])
        empty_document))) = [CreateElement ''div''] \<and>
   map node_tag
     (nodes (snd (grid_init grid_class (PStr ''1fr 1fr'') (PStr ''hi'') PNone None (map_of [])
        empty_document))) = [''div'']"
  using constructor_creates_one_node [of grid_class empty_document None "map_of []"
      "PStr ''hi''" "PStr ''1fr 1fr''" PNone]
  by (simp add: eval_defs grid_class_def)

subsection \<open>The order of the calls a constructor makes\<close>

lemma calls_style_loop:
  "calls (case style of
            None \<Rightarrow> d
          | Some items \<Rightarrow>
              if items = [] then d else fold (\<lambda>(key, v). style_setitem self key v) items d) =
     calls d @ style_calls (el_js self) style"
  by (cases style) (simp_all add: style_calls_def calls_fold_style)

lemma ElementBase_init_eq:
  "ElementBase_init c style kw d =
     (let self = \<lparr>el_class = c, el_js = length (nodes d)\<rparr>;
          d1 = snd (createElement (tag c) d);
          d2 = (case style of
                  None \<Rightarrow> d1
                | Some items \<Rightarrow>
                    if items = [] then d1
                    else fold (\<lambda>(key, v). style_setitem self key v) items d1)
      in (self, init_properties self kw d2))"
  by (simp add: ElementBase_init_def createElement_def Let_def split: option.split)

lemma fst_ElementBase_init [simp]:
  "fst (ElementBase_init c style kw d) = \<lparr>el_class = c, el_js = length (nodes d)\<rparr>"
  by (simp add: ElementBase_init_eq Let_def)

lemma fst_TextElementBase_init [simp]:
  "fst (TextElementBase_init c content style kw d) = \<lparr>el_class = c, el_js = length (nodes d)\<rparr>"
  by (simp add: TextElementBase_init_def split_def Let_def)

lemma snd_TextElementBase_init:
  "snd (TextElementBase_init c content style kw d) =
     (let self = \<lparr>el_class = c, el_js = length (nodes d)\<rparr>;
          d1 = snd (ElementBase_init c style kw d)
      in case content of
           PElement e \<Rightarrow> append_el self content d1
         | PList items \<Rightarrow> fold (append_el self) items d1
         | PNone \<Rightarrow> d1
         | _ \<Rightarrow> html_set self content d1)"
  by (simp add: TextElementBase_init_def split_def Let_def split: pyval.split)

lemma fst_grid_init [simp]:
  "fst (grid_init c layout content gap style kw d) = \<lparr>el_class = c, el_js = length (nodes d)\<rparr>"
  by (simp add: grid_init_def split_def Let_def)

lemma calls_ElementBase_init:
  assumes "distinct (map fst (cls_dict c))"
  shows "calls (snd (ElementBase_init c style kw d)) =
           calls d @ [CreateElement (tag c)] @ style_calls (length (nodes d)) style @
           property_calls (length (nodes d)) c kw"
proof -
  let ?self = "\<lparr>el_class = c, el_js = length (nodes d)\<rparr>"
  have dist: "distinct (map fst (cls_dict (el_class ?self)))" using assms by simp
  show ?thesis
    using calls_init_properties [OF dist] calls_style_loop [where self = ?self]
    by (simp add: ElementBase_init_eq Let_def)
qed

lemma calls_content:
  "calls (case content of
            PElement e \<Rightarrow> append_el self content d
          | PList items \<Rightarrow> fold (append_el self) items d
          | PNone \<Rightarrow> d
          | _ \<Rightarrow> html_set self content d) =
     calls d @ content_calls (el_js self) content"
  by (cases content) (simp_all add: content_calls_def calls_fold_append)

text \<open>
  C1, amended. \<^verbatim>\<open>ElementBase.__init__\<close> creates the node, sets each style item in the
  order of the style dictionary, and assigns each recognised property that the keyword
  arguments supply, in the order of the class's \<^verbatim>\<open>__dict__\<close>.
  \<^verbatim>\<open>TextElementBase.__init__\<close> makes the same calls and inserts the content last, after
  the properties. The keys of a class dictionary are distinct, as they are for every class
  of the module.
\<close>

theorem construction_order:
  assumes "distinct (map fst (cls_dict c))"
  shows "calls (snd (ElementBase_init c style kw d)) =
           calls d @ [CreateElement (tag c)] @ style_calls (length (nodes d)) style @
           property_calls (length (nodes d)) c kw \<and>
         calls (snd (TextElementBase_init c content style kw d)) =
           calls d @ performed_calls c (length (nodes d)) content style kw"
  using calls_content [where self = "\<lparr>el_class = c, el_js = length (nodes d)\<rparr>"]
  by (simp add: snd_TextElementBase_init Let_def calls_ElementBase_init [OF assms]
        performed_calls_def)

text \<open>
  C1, amended, at a concrete input: a \<^verbatim>\<open>button\<close> with one style item, the content
  \<^verbatim>\<open>"Click"\<close> and the keyword \<^verbatim>\<open>id="b"\<close>.
\<close>

theorem construction_order_witness:
  "distinct (map fst (cls_dict button_class)) \<and>
   calls (snd (TextElementBase_init button_class (PStr ''Click'')
     (Some [(''color'', PStr ''red'')]) (map_of [(''id'', PStr ''b'')]) empty_document)) =
   [CreateElement ''button'', SetStyle 0 ''color'' (PStr ''red''),
    SetProperty 0 ''id'' (PStr ''b''), SetHtml 0 (PStr ''Click'')]"
proof -
  have h: "distinct (map fst (cls_dict button_class))"
    by (simp add: button_class_def distinct_add_js_properties)
  have "performed_calls button_class 0 (PStr ''Click'') (Some [(''color'', PStr ''red'')])
      (map_of [(''id'', PStr ''b'')]) =
    [CreateElement ''button'', SetStyle 0 ''color'' (PStr ''red''),
     SetProperty 0 ''id'' (PStr ''b''), SetHtml 0 (PStr ''Click'')]"
    by (simp add: performed_calls_def style_calls_def property_calls_def content_calls_def
          button_class_def eval_defs)
  with h construction_order [OF h, where content = "PStr ''Click''"
      and style = "Some [(''color'', PStr ''red'')]" and kw = "map_of [(''id'', PStr ''b'')]"
      and d = empty_document]
  show ?thesis by (simp add: empty_document_def)
qed

text \<open>
  C1 as stated fails: for the same \<^verbatim>\<open>button\<close> the calls made are not the ones of the
  stated order, in which the content would come before the property \<^verbatim>\<open>id\<close>.
\<close>

theorem claimed_order_counterexample:
  "module_class ''button'' = Some button_class \<and>
   calls (snd (TextElementBase_init button_class (PStr ''Click'')
     (Some [(''color'', PStr ''red'')]) (map_of [(''id'', PStr ''b'')]) empty_document)) \<noteq>
   calls empty_document @
   claimed_calls button_class 0 (PStr ''Click'') (Some [(''color'', PStr ''red'')])
     (map_of [(''id'', PStr ''b'')])"
  by (simp add: module_class_button)
     (simp add: claimed_calls_def style_calls_def property_calls_def content_calls_def
        button_class_def eval_defs)

subsection \<open>The state of the wrapped node\<close>

lemma wrapped_update_node:
  "el_js self < length (nodes d) \<Longrightarrow>
     wrapped self (record_call c (update_node (el_js self) f d)) = f (wrapped self d)"
  by (simp add: wrapped_def nth_nodes_update_node)

lemma length_nodes_append_el [simp]: "length (nodes (append_el self x d)) = length (nodes d)"
  by (simp add: append_el_def)

lemma length_nodes_style_setitem [simp]:
  "length (nodes (style_setitem self k v d)) = length (nodes d)"
  by (simp add: style_setitem_def)

lemma wrapped_append_el:
  "el_js self < length (nodes d) \<Longrightarrow>
     wrapped self (append_el self x d) =
       (wrapped self d)\<lparr>node_children := node_children (wrapped self d) @ [x]\<rparr>"
  by (simp add: append_el_def wrapped_update_node)

lemma wrapped_html_set:
  "el_js self < length (nodes d) \<Longrightarrow>
     wrapped self (html_set self x d) = (wrapped self d)\<lparr>node_html := Some x\<rparr>"
  by (simp add: html_set_def wrapped_update_node)

lemma wrapped_style_setitem:
  "el_js self < length (nodes d) \<Longrightarrow>
     wrapped self (style_setitem self k v d) =
       (wrapped self d)\<lparr>node_style := AList.update k v (node_style (wrapped self d))\<rparr>"
  by (simp add: style_setitem_def wrapped_update_node)

lemma wrapped_JSProperty_set:
  "el_js self < length (nodes d) \<Longrightarrow>
     wrapped self (JSProperty_set p self v d) =
       (wrapped self d)\<lparr>node_props := AList.update p v (node_props (wrapped self d))\<rparr>"
  by (simp add: JSProperty_set_def wrapped_update_node)

lemma wrapped_fold_append_el:
  "el_js self < length (nodes d) \<Longrightarrow>
     wrapped self (fold (append_el self) items d) =
       (wrapped self d)\<lparr>node_children := node_children (wrapped self d) @ items\<rparr>"
proof (induction items arbitrary: d)
  case Nil
  show ?case by simp
next
  case (Cons x items)
  have "el_js self < length (nodes (append_el self x d))" using Cons.prems by simp
  from Cons.IH [OF this] show ?case
    by (simp add: wrapped_append_el [OF Cons.prems])
qed

lemma node_exists_after_ElementBase_init:
  "length (nodes d) < length (nodes (snd (ElementBase_init c style kw d)))"
proof -
  obtain d' where "ElementBase_init c style kw d = (\<lparr>el_class = c, el_js = length (nodes d)\<rparr>, d')"
    and "only_touches (length (nodes d)) (snd (createElement (tag c) d)) d'"
    using ElementBase_init_outcome by blast
  then show ?thesis by (simp add: only_touches_def createElement_def)
qed

text \<open>
  C9. With \<open>d1\<close> the document after \<^verbatim>\<open>super().__init__\<close> and \<open>d2\<close> the document after
  \<^verbatim>\<open>TextElementBase.__init__\<close>: an element as content is appended as one child; the items
  of a list are appended in list order; \<^verbatim>\<open>None\<close> leaves the document as it is; any other
  value becomes the html of the node. Appending leaves the html alone, and setting the html
  leaves the children alone.
\<close>

theorem content_dispatch:
  fixes c :: pyclass and content :: pyval and style :: style_arg and kw :: kwargs
    and d :: document
  defines "self \<equiv> fst (ElementBase_init c style kw d)"
    and "d1 \<equiv> snd (ElementBase_init c style kw d)"
    and "d2 \<equiv> snd (TextElementBase_init c content style kw d)"
  shows "fst (TextElementBase_init c content style kw d) = self \<and>
    (\<forall>e. content = PElement e \<longrightarrow>
       calls d2 = calls d1 @ [AppendChild (el_js self) content] \<and>
       wrapped self d2 =
         (wrapped self d1)\<lparr>node_children := node_children (wrapped self d1) @ [content]\<rparr>) \<and>
    (\<forall>items. content = PList items \<longrightarrow>
       calls d2 = calls d1 @ map (AppendChild (el_js self)) items \<and>
       wrapped self d2 =
         (wrapped self d1)\<lparr>node_children := node_children (wrapped self d1) @ items\<rparr>) \<and>
    (content = PNone \<longrightarrow> d2 = d1) \<and>
    (content \<noteq> PNone \<and> (\<forall>e. content \<noteq> PElement e) \<and> (\<forall>items. content \<noteq> PList items) \<longrightarrow>
       calls d2 = calls d1 @ [SetHtml (el_js self) content] \<and>
       wrapped self d2 = (wrapped self d1)\<lparr>node_html := Some content\<rparr>)"
proof -
  have n: "el_js self < length (nodes d1)"
    unfolding self_def d1_def using node_exists_after_ElementBase_init by simp
  have self: "self = \<lparr>el_class = c, el_js = length (nodes d)\<rparr>"
    by (simp add: self_def)
  have d2: "d2 =
     (case content of
        PElement e \<Rightarrow> append_el self content d1
      | PList items \<Rightarrow> fold (append_el self) items d1
      | PNone \<Rightarrow> d1
      | _ \<Rightarrow> html_set self content d1)"
    unfolding d2_def snd_TextElementBase_init Let_def self d1_def ..
  show ?thesis
  proof (cases content)
    case PNone
    then show ?thesis using d2 self by simp
  next
    case (PBool b)
    then show ?thesis using d2 self n by (simp add: wrapped_html_set)
  next
    case (PInt i)
    then show ?thesis using d2 self n by (simp add: wrapped_html_set)
  next
    case (PStr s)
    then show ?thesis using d2 self n by (simp add: wrapped_html_set)
  next
    case (PElement e)
    then show ?thesis using d2 self n by (simp add: wrapped_append_el)
  next
    case (PList items)
    then show ?thesis using d2 self n by (simp add: wrapped_fold_append_el calls_fold_append)
  qed
qed

text \<open>
  C9, at concrete inputs, one for each shape of the content: an element, a list, \<^verbatim>\<open>None\<close>
  and a string.
\<close>

theorem content_dispatch_witness:
  "snd (TextElementBase_init span_class (PElement 0) None (map_of [])
     (snd (TextElementBase_init span_class PNone None (map_of []) empty_document))) =
     \<lparr>nodes =
        [\<lparr>node_tag = ''span'', node_style = [], node_props = [], node_children = [],
           node_html = None\<rparr>,
         \<lparr>node_tag = ''span'', node_style = [], node_props = [],
           node_children = [PElement 0], node_html = None\<rparr>],
      calls = [CreateElement ''span'', CreateElement ''span'', AppendChild 1 (PElement 0)]\<rparr> \<and>
   snd (TextElementBase_init span_class (PList [PStr ''x'', PInt 2]) None (map_of [])
     empty_document) =
     \<lparr>nodes =
        [\<lparr>node_tag = ''span'', node_style = [], node_props = [],
           node_children = [PStr ''x'', PInt 2], node_html = None\<rparr>],
      calls = [CreateElement ''span'', AppendChild 0 (PStr ''x''), AppendChild 0 (PInt 2)]\<rparr> \<and>
   snd (TextElementBase_init span_class PNone None (map_of []) empty_document) =
     snd (ElementBase_init span_class None (map_of []) empty_document) \<and>
   snd (TextElementBase_init span_class (PStr ''hi'') None (map_of []) empty_document) =
     \<lparr>nodes =
        [\<lparr>node_tag = ''span'', node_style = [], node_props = [], node_children = [],
           node_html = Some (PStr ''hi'')\<rparr>],
      calls = [CreateElement ''span'', SetHtml 0 (PStr ''hi'')]\<rparr>"
  using content_dispatch [of span_class "PElement 0" None "map_of []"
      "snd (TextElementBase_init span_class PNone None (map_of []) empty_document)"]
    content_dispatch [of span_class "PList [PStr ''x'', PInt 2]" None "map_of []" empty_document]
    content_dispatch [of span_class PNone None "map_of []" empty_document]
    content_dispatch [of span_class "PStr ''hi''" None "map_of []" empty_document]
  by (simp add: eval_defs span_class_def)

subsection \<open>The style of the wrapped node\<close>

lemma fold_keeps:
  assumes "\<And>x d. obs (f x d) = obs d"
  shows "obs (fold f xs d) = obs d"
  by (induction xs arbitrary: d) (simp_all add: assms)

lemma node_style_update_node:
  "(\<And>x. node_style (f x) = node_style x) \<Longrightarrow>
     node_style (nodes (update_node n f d) ! i) = node_style (nodes d ! i)"
  by (simp add: nth_nodes_update_node)

lemma node_style_setattr:
  "node_style (nodes (setattr self a v d) ! i) = node_style (nodes d ! i)"
  by (simp add: setattr_def JSProperty_set_def node_style_update_node
        split: option.split attr.split)

lemma node_style_init_property:
  "node_style (nodes (init_property self kw x d) ! i) = node_style (nodes d ! i)"
  by (cases "(self, kw, x, d)" rule: init_property.cases)
     (simp_all add: node_style_setattr split: option.split)

lemma node_style_init_properties:
  "node_style (nodes (init_properties self kw d) ! i) = node_style (nodes d ! i)"
  unfolding init_properties_def
  by (rule fold_keeps [where obs = "\<lambda>d. node_style (nodes d ! i)"])
     (rule node_style_init_property)

lemma node_style_append_el:
  "node_style (nodes (append_el self x d) ! i) = node_style (nodes d ! i)"
  by (simp add: append_el_def node_style_update_node)

lemma node_style_content:
  "node_style (nodes (case content of
                        PElement e \<Rightarrow> append_el self content d
                      | PList items \<Rightarrow> fold (append_el self) items d
                      | PNone \<Rightarrow> d
                      | _ \<Rightarrow> html_set self content d) ! i) = node_style (nodes d ! i)"
proof -
  have "node_style (nodes (fold (append_el self) items d) ! i) = node_style (nodes d ! i)"
    for items
    by (rule fold_keeps [where obs = "\<lambda>d. node_style (nodes d ! i)"])
       (rule node_style_append_el)
  then show ?thesis
    by (cases content) (simp_all add: node_style_append_el html_set_def node_style_update_node)
qed

lemma map_of_fold_update:
  "map_of (fold (\<lambda>(key, v). AList.update key v) items al) = map_of al ++ map_of (rev items)"
proof (induction items arbitrary: al)
  case Nil
  show ?case by simp
next
  case (Cons x items)
  obtain k v where x: "x = (k, v)" by (cases x)
  have "map_of (AList.update k v al) ++ map_of (rev items) =
          map_of al ++ (map_of (rev items) ++ [k \<mapsto> v] ++ map_of (rev items))"
    by (simp add: update_conv' map_add_upd_left fun_eq_iff map_add_def split: option.split)
  then show ?case by (simp add: x Cons.IH fun_eq_iff map_add_def split: option.split)
qed

lemma node_style_fold_style_setitem:
  "el_js self < length (nodes d) \<Longrightarrow>
     node_style (wrapped self (fold (\<lambda>(key, v). style_setitem self key v) items d)) =
       fold (\<lambda>(key, v). AList.update key v) items (node_style (wrapped self d))"
proof (induction items arbitrary: d)
  case Nil
  show ?case by simp
next
  case (Cons x items)
  obtain k v where x: "x = (k, v)" by (cases x)
  have "el_js self < length (nodes (style_setitem self k v d))" using Cons.prems by simp
  from Cons.IH [OF this] show ?case
    by (simp add: x wrapped_style_setitem [OF Cons.prems])
qed

lemma style_after_ElementBase_init:
  "map_of (node_style (wrapped (fst (ElementBase_init c style kw d))
             (snd (ElementBase_init c style kw d)))) = supplied_style style"
proof -
  let ?self = "\<lparr>el_class = c, el_js = length (nodes d)\<rparr>"
  let ?d1 = "snd (createElement (tag c) d)"
  have n: "el_js ?self < length (nodes ?d1)" by (simp add: createElement_def)
  have fresh: "node_style (wrapped ?self ?d1) = []"
    by (simp add: createElement_def wrapped_def)
  have "map_of (node_style (wrapped ?self
          (case style of
             None \<Rightarrow> ?d1
           | Some items \<Rightarrow>
               if items = [] then ?d1
               else fold (\<lambda>(key, v). style_setitem ?self key v) items ?d1))) =
        supplied_style style"
    by (cases style)
       (simp_all add: supplied_style_def fresh node_style_fold_style_setitem [OF n]
          map_of_fold_update)
  then show ?thesis
    by (simp add: ElementBase_init_eq Let_def wrapped_def node_style_init_properties)
qed

lemma style_after_TextElementBase_init:
  "map_of (node_style (wrapped (fst (TextElementBase_init c content style kw d))
             (snd (TextElementBase_init c content style kw d)))) = supplied_style style"
  using style_after_ElementBase_init [of c style kw d]
  by (simp add: snd_TextElementBase_init Let_def wrapped_def node_style_content)

lemma length_nodes_TextElementBase_init:
  "length (nodes d) < length (nodes (snd (TextElementBase_init c content style kw d)))"
proof -
  obtain d' where
    "TextElementBase_init c content style kw d = (\<lparr>el_class = c, el_js = length (nodes d)\<rparr>, d')"
    and "only_touches (length (nodes d)) (snd (createElement (tag c) d)) d'"
    using TextElementBase_init_outcome by blast
  then show ?thesis by (simp add: only_touches_def createElement_def)
qed

lemma snd_grid_init:
  "snd (grid_init c layout content gap style kw d) =
     (let self = \<lparr>el_class = c, el_js = length (nodes d)\<rparr>;
          d1 = snd (TextElementBase_init c content style kw d);
          d2 = style_setitem self ''display'' (PStr ''grid'') d1;
          d3 = style_setitem self ''grid-template-columns'' layout d2
      in if gap \<noteq> PNone then style_setitem self ''gap'' gap d3 else d3)"
  by (simp add: grid_init_def Let_def split_def)

text \<open>
  C10. After \<^verbatim>\<open>grid(layout, content, gap, style=...)\<close> the style of the wrapped node has
  \<^verbatim>\<open>display\<close> equal to \<^verbatim>\<open>"grid"\<close>, whatever the style argument said, and
  \<^verbatim>\<open>grid-template-columns\<close> equal to the layout. When \<^verbatim>\<open>gap\<close> is not \<^verbatim>\<open>None\<close> the style
  has \<^verbatim>\<open>gap\<close> equal to it; when it is \<^verbatim>\<open>None\<close> the constructor makes no assignment to
  \<^verbatim>\<open>gap\<close>, which stays as the style argument supplied it. Every other key is as the style
  argument supplied it.
\<close>

theorem grid_forces_grid_layout:
  fixes c :: pyclass and layout content gap :: pyval and style :: style_arg and kw :: kwargs
    and d :: document
  defines "self \<equiv> fst (grid_init c layout content gap style kw d)"
    and "d1 \<equiv> snd (TextElementBase_init c content style kw d)"
    and "d' \<equiv> snd (grid_init c layout content gap style kw d)"
  defines "st \<equiv> map_of (node_style (wrapped self d'))"
  shows "st ''display'' = Some (PStr ''grid'') \<and>
    st ''grid-template-columns'' = Some layout \<and>
    (gap \<noteq> PNone \<longrightarrow> st ''gap'' = Some gap) \<and>
    (gap = PNone \<longrightarrow> st ''gap'' = supplied_style style ''gap'') \<and>
    (SetStyle (el_js self) ''gap'' gap \<in> set (new_calls d1 d') \<longleftrightarrow> gap \<noteq> PNone) \<and>
    (\<forall>key. key \<notin> {''display'', ''grid-template-columns'', ''gap''} \<longrightarrow>
       st key = supplied_style style key)"
proof -
  let ?self = "\<lparr>el_class = c, el_js = length (nodes d)\<rparr>"
  have self: "self = ?self" by (simp add: self_def)
  have n1: "el_js ?self < length (nodes d1)"
    using length_nodes_TextElementBase_init [of d c content style kw] by (simp add: d1_def)
  have s1: "map_of (node_style (wrapped ?self d1)) = supplied_style style"
    using style_after_TextElementBase_init [of c content style kw d] by (simp add: d1_def)
  let ?d2 = "style_setitem ?self ''display'' (PStr ''grid'') d1"
  let ?d3 = "style_setitem ?self ''grid-template-columns'' layout ?d2"
  have n2: "el_js ?self < length (nodes ?d2)" using n1 by simp
  have n3: "el_js ?self < length (nodes ?d3)" using n1 by simp
  have d': "d' = (if gap \<noteq> PNone then style_setitem ?self ''gap'' gap ?d3 else ?d3)"
    unfolding d'_def snd_grid_init Let_def d1_def ..
  have s3: "map_of (node_style (wrapped ?self ?d3)) =
      (supplied_style style)(''display'' \<mapsto> PStr ''grid'', ''grid-template-columns'' \<mapsto> layout)"
    by (simp add: wrapped_style_setitem [OF n2] wrapped_style_setitem [OF n1] update_conv' s1)
  have st: "st = (if gap \<noteq> PNone
      then (supplied_style style)(''display'' \<mapsto> PStr ''grid'',
             ''grid-template-columns'' \<mapsto> layout, ''gap'' \<mapsto> gap)
      else (supplied_style style)(''display'' \<mapsto> PStr ''grid'',
             ''grid-template-columns'' \<mapsto> layout))"
    unfolding st_def self d'
    by (simp add: wrapped_style_setitem [OF n3] update_conv' s3)
  have cs: "new_calls d1 d' =
      [SetStyle (el_js ?self) ''display'' (PStr ''grid''),
       SetStyle (el_js ?self) ''grid-template-columns'' layout] @
      (if gap \<noteq> PNone then [SetStyle (el_js ?self) ''gap'' gap] else [])"
    by (simp add: d' new_calls_def)
  show ?thesis
    by (simp add: st cs self)
qed

text \<open>
  C10, at concrete inputs: a grid with a gap and a style that asks for \<^verbatim>\<open>display: block\<close>,
  and a grid with no gap argument and a style that supplies \<^verbatim>\<open>gap\<close>.
\<close>

theorem grid_forces_grid_layout_witness:
  "node_style (wrapped
     (fst (grid_init grid_class (PStr ''1fr 1fr'') PNone (PStr ''10px'')
        (Some [(''display'', PStr ''block'')]) (map_of []) empty_document))
     (snd (grid_init grid_class (PStr ''1fr 1fr'') PNone (PStr ''10px'')
        (Some [(''display'', PStr ''block'')]) (map_of []) empty_document))) =
     [(''display'', PStr ''grid''), (''grid-template-columns'', PStr ''1fr 1fr''),
      (''gap'', PStr ''10px'')] \<and>
   node_style (wrapped
     (fst (grid_init grid_class (PStr ''1fr'') PNone PNone
        (Some [(''gap'', PStr ''2px'')]) (map_of []) empty_document))
     (snd (grid_init grid_class (PStr ''1fr'') PNone PNone
        (Some [(''gap'', PStr ''2px'')]) (map_of []) empty_document))) =
     [(''gap'', PStr ''2px''), (''display'', PStr ''grid''),
      (''grid-template-columns'', PStr ''1fr'')]"
  using grid_forces_grid_layout [of grid_class "PStr ''1fr 1fr''" PNone "PStr ''10px''"
      "Some [(''display'', PStr ''block'')]" "map_of []" empty_document]
    grid_forces_grid_layout [of grid_class "PStr ''1fr''" PNone PNone
      "Some [(''gap'', PStr ''2px'')]" "map_of []" empty_document]
  by (simp add: eval_defs grid_class_def)

subsection \<open>Keyword arguments the class does not recognise\<close>

lemma init_property_unrecognised:
  assumes "\<forall>p. (k, JSProperty p) \<notin> set (cls_dict (el_class self))"
    and "x \<in> set (cls_dict (el_class self))"
  shows "init_property self (kw(k \<mapsto> v)) x = init_property self (kw(k := None)) x"
proof (cases x)
  case (Pair a at)
  show ?thesis
  proof (cases at)
    case (JSProperty p)
    with Pair assms have "a \<noteq> k" by auto
    with Pair JSProperty show ?thesis by (simp add: fun_eq_iff)
  qed (simp_all add: Pair fun_eq_iff)
qed

lemma init_properties_unrecognised:
  assumes "\<forall>p. (k, JSProperty p) \<notin> set (cls_dict (el_class self))"
  shows "init_properties self (kw(k \<mapsto> v)) d = init_properties self (kw(k := None)) d"
  unfolding init_properties_def
  by (rule fold_cong) (simp_all add: init_property_unrecognised [OF assms])

text \<open>
  C8. A keyword argument whose name is not that of a \<^verbatim>\<open>JSProperty\<close> in the class's own
  \<^verbatim>\<open>__dict__\<close> changes nothing: each constructor returns the instance and the document it
  returns without that argument. The constructors have no failing branch, so no error is
  raised either.
\<close>

theorem unrecognised_keyword_ignored:
  assumes "\<forall>p. (k, JSProperty p) \<notin> set (cls_dict c)"
  shows "ElementBase_init c style (kw(k \<mapsto> v)) d = ElementBase_init c style (kw(k := None)) d \<and>
    TextElementBase_init c content style (kw(k \<mapsto> v)) d =
      TextElementBase_init c content style (kw(k := None)) d \<and>
    grid_init c layout content gap style (kw(k \<mapsto> v)) d =
      grid_init c layout content gap style (kw(k := None)) d"
proof -
  have "init_properties \<lparr>el_class = c, el_js = n\<rparr> (kw(k \<mapsto> v)) x =
        init_properties \<lparr>el_class = c, el_js = n\<rparr> (kw(k := None)) x" for n x
    by (rule init_properties_unrecognised) (simp add: assms)
  then have e: "ElementBase_init c style (kw(k \<mapsto> v)) d =
      ElementBase_init c style (kw(k := None)) d"
    by (simp add: ElementBase_init_eq Let_def)
  then have t: "TextElementBase_init c content style (kw(k \<mapsto> v)) d =
      TextElementBase_init c content style (kw(k := None)) d"
    by (simp add: TextElementBase_init_def)
  then have "grid_init c layout content gap style (kw(k \<mapsto> v)) d =
      grid_init c layout content gap style (kw(k := None)) d"
    by (simp add: grid_init_def)
  with e t show ?thesis by simp
qed

text \<open>
  C8, at a concrete input: \<^verbatim>\<open>span("hi", id="x")\<close>, where \<^verbatim>\<open>span\<close> has no \<^verbatim>\<open>JSProperty\<close>
  named \<^verbatim>\<open>id\<close>.
\<close>

theorem unrecognised_keyword_ignored_witness:
  "(\<forall>p. (''id'', JSProperty p) \<notin> set (cls_dict span_class)) \<and>
   TextElementBase_init span_class (PStr ''hi'') None ((map_of [])(''id'' \<mapsto> PStr ''x''))
     empty_document =
   TextElementBase_init span_class (PStr ''hi'') None ((map_of [])(''id'' := None))
     empty_document"
proof -
  have h: "\<forall>p. (''id'', JSProperty p) \<notin> set (cls_dict span_class)"
    by (simp add: span_class_def)
  from unrecognised_keyword_ignored [OF h, of None "map_of []" "PStr ''x''" empty_document
      "PStr ''hi''"] h
  show ?thesis by simp
qed

subsection \<open>The harvesting routine and the class it is given\<close>

text \<open>
  C3, amended. After \<^verbatim>\<open>_add_js_properties(cls, *attrs)\<close> every name in
  \<^verbatim>\<open>GLOBAL_ATTRIBUTES\<close> and in \<^verbatim>\<open>attrs\<close> is a \<^verbatim>\<open>JSProperty\<close> of the class bound to that
  same name, and every other entry of the class is as it was. So the \<^verbatim>\<open>JSProperty\<close>
  attributes of the class are those names together with the ones the class body had
  defined, and exactly those names when the body had defined none.
\<close>

theorem add_js_properties_installs:
  "(\<forall>a. map_of (cls_dict (add_js_properties c attrs)) a =
      (if a \<in> set GLOBAL_ATTRIBUTES \<union> set attrs then Some (JSProperty a)
       else map_of (cls_dict c) a)) \<and>
   {a. \<exists>p. map_of (cls_dict (add_js_properties c attrs)) a = Some (JSProperty p)} =
     set GLOBAL_ATTRIBUTES \<union> set attrs \<union>
     {a. \<exists>p. map_of (cls_dict c) a = Some (JSProperty p)} \<and>
   ((\<forall>a p. map_of (cls_dict c) a \<noteq> Some (JSProperty p)) \<longrightarrow>
      {a. \<exists>p. map_of (cls_dict (add_js_properties c attrs)) a = Some (JSProperty p)} =
        set GLOBAL_ATTRIBUTES \<union> set attrs)"
  by (auto simp: map_of_add_js_properties split: if_splits)

text \<open>
  C3, amended, at a concrete input: \<^verbatim>\<open>_add_js_properties(blockquote, "cite")\<close>.
\<close>

theorem add_js_properties_installs_witness:
  "(\<forall>a p. map_of (cls_dict blockquote_body) a \<noteq> Some (JSProperty p)) \<and>
   {a. \<exists>p. map_of (cls_dict (add_js_properties blockquote_body [''cite''])) a =
      Some (JSProperty p)} = set GLOBAL_ATTRIBUTES \<union> {''cite''}"
proof -
  have h: "\<forall>a p. map_of (cls_dict blockquote_body) a \<noteq> Some (JSProperty p)"
    by (simp add: blockquote_body_def)
  have "{a. \<exists>p. map_of (cls_dict (add_js_properties blockquote_body [''cite''])) a =
      Some (JSProperty p)} = set GLOBAL_ATTRIBUTES \<union> set [''cite'']"
    using add_js_properties_installs [of blockquote_body "[''cite'']"] h by blast
  with h show ?thesis by simp
qed

text \<open>
  C3 as stated fails for \<^verbatim>\<open>script\<close>: after the call of lines 770 to 782 the class still
  has the \<^verbatim>\<open>JSProperty\<close> \<^verbatim>\<open>async_\<close> of its body, bound to \<^verbatim>\<open>async\<close>, a name that is
  neither in \<^verbatim>\<open>GLOBAL_ATTRIBUTES\<close> nor among the arguments of the call.
\<close>

theorem add_js_properties_exactly_counterexample:
  "module_class ''script'' = Some (add_js_properties script_body script_attrs) \<and>
   map_of (cls_dict (add_js_properties script_body script_attrs)) ''async_'' =
     Some (JSProperty ''async'') \<and>
   ''async_'' \<notin> set GLOBAL_ATTRIBUTES \<union> set script_attrs"
  by (simp add: module_class_script map_of_add_js_properties)
     (simp add: script_body_def script_attrs_def GLOBAL_ATTRIBUTES_def js_property_def)

subsection \<open>Reading and writing a property\<close>

text \<open>
  C4. For an instance whose node exists and an attribute name under which its class holds a
  \<^verbatim>\<open>JSProperty\<close>: reading the attribute returns the property of the wrapped node that the
  descriptor names; writing it stores the value in that property of the wrapped node, with
  one DOM call, and touches no other node; a read after a write returns the value written.
  For a name that \<^verbatim>\<open>_add_js_properties\<close> installed, the property has the name of the
  attribute.
\<close>

theorem property_access_forwarded:
  assumes "map_of (cls_dict (el_class self)) a = Some (JSProperty p)"
    and "el_js self < length (nodes d)"
  shows "getattr self a d = map_of (node_props (wrapped self d)) p \<and>
    wrapped self (setattr self a v d) =
      (wrapped self d)\<lparr>node_props := AList.update p v (node_props (wrapped self d))\<rparr> \<and>
    calls (setattr self a v d) = calls d @ [SetProperty (el_js self) p v] \<and>
    getattr self a (setattr self a v d) = Some v \<and>
    only_touches (el_js self) d (setattr self a v d) \<and>
    (el_class self = add_js_properties c attrs \<and> a \<in> set GLOBAL_ATTRIBUTES \<union> set attrs \<longrightarrow>
       p = a)"
proof -
  have s: "setattr self a v d = JSProperty_set p self v d"
    by (simp add: setattr_def assms(1))
  have n: "el_js self < length (nodes (JSProperty_set p self v d))"
    using assms(2) by (simp add: JSProperty_set_def)
  have g: "getattr self a x = JSProperty_get p self x" for x
    by (simp add: getattr_def assms(1))
  have "p = a" if "el_class self = add_js_properties c attrs"
    and "a \<in> set GLOBAL_ATTRIBUTES \<union> set attrs"
    using that assms(1) by (simp add: map_of_add_js_properties)
  then show ?thesis
    using assms(2) n only_touches_setattr [of self d a v]
    by (simp add: s g JSProperty_get_def wrapped_JSProperty_set update_conv'
          flip: wrapped_def)
qed

text \<open>
  C4, at a concrete input: the attribute \<^verbatim>\<open>id\<close> of a \<^verbatim>\<open>button\<close> on a fresh node.
\<close>

theorem property_access_forwarded_witness:
  "map_of (cls_dict button_class) ''id'' = Some (JSProperty ''id'') \<and>
   getattr \<lparr>el_class = button_class, el_js = 0\<rparr> ''id''
     (snd (createElement ''button'' empty_document)) = None \<and>
   getattr \<lparr>el_class = button_class, el_js = 0\<rparr> ''id''
     (setattr \<lparr>el_class = button_class, el_js = 0\<rparr> ''id'' (PStr ''b'')
        (snd (createElement ''button'' empty_document))) = Some (PStr ''b'') \<and>
   node_props (wrapped \<lparr>el_class = button_class, el_js = 0\<rparr>
     (setattr \<lparr>el_class = button_class, el_js = 0\<rparr> ''id'' (PStr ''b'')
        (snd (createElement ''button'' empty_document)))) = [(''id'', PStr ''b'')]"
proof -
  let ?self = "\<lparr>el_class = button_class, el_js = 0\<rparr>"
  let ?d = "snd (createElement ''button'' empty_document)"
  have h1: "map_of (cls_dict (el_class ?self)) ''id'' = Some (JSProperty ''id'')"
    by (simp add: button_class_def map_of_add_js_properties GLOBAL_ATTRIBUTES_def)
  have h2: "el_js ?self < length (nodes ?d)"
    by (simp add: createElement_def empty_document_def)
  have w: "node_props (wrapped ?self ?d) = []"
    by (simp add: createElement_def empty_document_def wrapped_def)
  from property_access_forwarded [OF h1 h2, of "PStr ''b''"] h1 w
  show ?thesis by simp
qed

subsection \<open>Tags of the module's classes\<close>

lemma tag_add_js_properties:
  "''tag'' \<notin> set attrs \<Longrightarrow> tag (add_js_properties c attrs) = tag c"
  by (simp add: tag_def map_of_add_js_properties GLOBAL_ATTRIBUTES_def)

lemma tag_class_step:
  assumes "tag_untouched (s # ss)"
    and "map_option tag (class_step n cur s) = Some t"
  shows "(n, t) \<in> set (class_tags [s]) \<or> map_option tag cur = Some t"
proof (cases s)
  case (ClassDef m b body)
  with assms(2) show ?thesis by (auto split: if_splits)
next
  case (Add_js_properties m attrs)
  with assms(1) have "''tag'' \<notin> set attrs" by simp
  with assms(2) Add_js_properties show ?thesis
    by (cases cur) (auto simp: tag_add_js_properties split: if_splits)
qed

lemma class_tags_Cons: "class_tags (s # ss) = class_tags [s] @ class_tags ss"
  by (cases s) simp_all

lemma tag_untouched_Cons: "tag_untouched (s # ss) \<Longrightarrow> tag_untouched ss"
  by (cases s) simp_all

lemma tag_foldl_class_step:
  "tag_untouched ss \<Longrightarrow> map_option tag (foldl (class_step n) cur ss) = Some t \<Longrightarrow>
     (n, t) \<in> set (class_tags ss) \<or> map_option tag cur = Some t"
proof (induction ss arbitrary: cur)
  case Nil
  then show ?case by simp
next
  case (Cons s ss)
  from Cons.prems(2) have "map_option tag (foldl (class_step n) (class_step n cur s) ss) = Some t"
    by simp
  from Cons.IH [OF tag_untouched_Cons [OF Cons.prems(1)] this]
  have "(n, t) \<in> set (class_tags ss) \<or> map_option tag (class_step n cur s) = Some t" .
  then show ?case
  proof
    assume "(n, t) \<in> set (class_tags ss)"
    then show ?thesis by (subst class_tags_Cons) simp
  next
    assume "map_option tag (class_step n cur s) = Some t"
    from tag_class_step [OF Cons.prems(1) this] show ?thesis
      by (subst class_tags_Cons) auto
  qed
qed

lemma elements_module_tag_untouched: "tag_untouched elements_module"
  by (simp add: elements_module_def)

lemma module_class_tag:
  assumes "module_class n = Some c"
  shows "(n, tag c) \<in> set (class_tags elements_module)"
proof -
  from assms have "map_option tag (foldl (class_step n) None elements_module) = Some (tag c)"
    by (simp add: module_class_eq)
  from tag_foldl_class_step [OF elements_module_tag_untouched this] show ?thesis by simp
qed

lemma html_tags_distinct:
  "distinct (map snd (filter (\<lambda>(n, t). n \<notin> {''ElementBase'', ''TextElementBase'', ''grid''})
     (remdups (class_tags elements_module))))"
  by (simp add: elements_module_def tag_def)

text \<open>
  C5, amended. Every class has one tag, and two different classes of the module have
  different tags, the custom element \<^verbatim>\<open>grid\<close> and the two base classes apart: these three
  use \<^verbatim>\<open>div\<close>, the tag of the class \<^verbatim>\<open>div\<close>.
\<close>

theorem html_classes_have_distinct_tags:
  assumes "module_class n = Some c" and "module_class m = Some c'"
    and "n \<notin> {''ElementBase'', ''TextElementBase'', ''grid''}"
    and "m \<notin> {''ElementBase'', ''TextElementBase'', ''grid''}"
    and "n \<noteq> m"
  shows "tag c \<noteq> tag c'"
proof
  assume eq: "tag c = tag c'"
  let ?L = "filter (\<lambda>(n, t). n \<notin> {''ElementBase'', ''TextElementBase'', ''grid''})
     (remdups (class_tags elements_module))"
  have n: "(n, tag c) \<in> set ?L"
    using module_class_tag [OF assms(1)] assms(3) by simp
  have m: "(m, tag c') \<in> set ?L"
    using module_class_tag [OF assms(2)] assms(4) by simp
  have "inj_on snd (set ?L)"
    using html_tags_distinct by (simp only: distinct_map)
  from inj_onD [OF this _ n m] eq have "(n, tag c) = (m, tag c')" by simp
  with assms(5) show False by simp
qed

text \<open>
  C5, amended, at a concrete input: the classes \<^verbatim>\<open>div\<close> and \<^verbatim>\<open>span\<close>.
\<close>

theorem html_classes_have_distinct_tags_witness:
  "module_class ''div'' = Some div_class \<and> module_class ''span'' = Some span_class \<and>
   ''div'' \<notin> {''ElementBase'', ''TextElementBase'', ''grid''} \<and>
   ''span'' \<notin> {''ElementBase'', ''TextElementBase'', ''grid''} \<and>
   ''div'' \<noteq> ''span'' \<and> tag div_class \<noteq> tag span_class"
proof -
  have h3: "''div'' \<notin> {''ElementBase'', ''TextElementBase'', ''grid''}" by simp
  have h4: "''span'' \<notin> {''ElementBase'', ''TextElementBase'', ''grid''}" by simp
  have h5: "''div'' \<noteq> ''span''" by simp
  from html_classes_have_distinct_tags [OF module_class_div module_class_span h3 h4 h5]
    module_class_div module_class_span
  show ?thesis by simp
qed

text \<open>
  C5 as stated fails: \<^verbatim>\<open>div\<close> and \<^verbatim>\<open>grid\<close> are two classes with the tag \<^verbatim>\<open>div\<close>.
\<close>

theorem one_to_one_counterexample:
  "module_class ''div'' = Some div_class \<and> module_class ''grid'' = Some grid_class \<and>
   div_class \<noteq> grid_class \<and> tag div_class = ''div'' \<and> tag grid_class = ''div''"
  by (simp add: module_class_div module_class_grid)
     (simp add: div_class_def grid_class_def eval_defs)

subsection \<open>Classes the harvesting routine is never called for\<close>

text \<open>
  C6. The table \<^verbatim>\<open>CUSTOM_ATTRIBUTES\<close> lists \<^verbatim>\<open>href\<close> for the tag \<^verbatim>\<open>a\<close>, but nothing reads
  the table and the call for \<^verbatim>\<open>a\<close> is commented out: the class \<^verbatim>\<open>a\<close> has no attribute
  \<^verbatim>\<open>href\<close>, and \<^verbatim>\<open>a("home", href="/home")\<close> sets no property on the node.
\<close>

theorem custom_attributes_not_installed:
  "map_of CUSTOM_ATTRIBUTES ''a'' =
     Some [''download'', ''href'', ''referrerpolicy'', ''rel'', ''target'', ''type''] \<and>
   module_class ''a'' = Some a_class \<and>
   map_of (cls_dict a_class) ''href'' = None \<and>
   snd (TextElementBase_init a_class (PStr ''home'') None (map_of [(''href'', PStr ''/home'')])
     empty_document) =
     \<lparr>nodes =
        [\<lparr>node_tag = ''a'', node_style = [], node_props = [], node_children = [],
           node_html = Some (PStr ''home'')\<rparr>],
      calls = [CreateElement ''a'', SetHtml 0 (PStr ''home'')]\<rparr>"
  by (simp add: module_class_a)
     (simp add: CUSTOM_ATTRIBUTES_def a_class_def eval_defs)

text \<open>
  C7. \<^verbatim>\<open>id\<close> is in \<^verbatim>\<open>GLOBAL_ATTRIBUTES\<close>, but \<^verbatim>\<open>_add_js_properties\<close> is never called for
  \<^verbatim>\<open>span\<close> or for \<^verbatim>\<open>table\<close>: neither class has an attribute \<^verbatim>\<open>id\<close>, and
  \<^verbatim>\<open>span("hi", id="x")\<close> sets no property on the node.
\<close>

theorem span_lacks_global_attributes:
  "''id'' \<in> set GLOBAL_ATTRIBUTES \<and>
   module_class ''span'' = Some span_class \<and>
   map_of (cls_dict span_class) ''id'' = None \<and>
   module_class ''table'' = Some table_class \<and>
   map_of (cls_dict table_class) ''id'' = None \<and>
   snd (TextElementBase_init span_class (PStr ''hi'') None (map_of [(''id'', PStr ''x'')])
     empty_document) =
     \<lparr>nodes =
        [\<lparr>node_tag = ''span'', node_style = [], node_props = [], node_children = [],
           node_html = Some (PStr ''hi'')\<rparr>],
      calls = [CreateElement ''span'', SetHtml 0 (PStr ''hi'')]\<rparr>"
  by (simp add: module_class_span module_class_table)
     (simp add: span_class_def table_class_def eval_defs)

end
